theory Spec2Isabelle
  imports Complex_Main "HOL-Library.Multiset"
begin

section \<open>Python values and helpers\<close>

text \<open>
  A Python float (a similarity score, a distance, a clock reading, an embedding component) is
  the real number it denotes, so comparing two floats is comparing their values. The two
  float operations that decide which results are returned, the subtraction \<^verbatim>\<open>1 - distance\<close>
  and \<^verbatim>\<open>round(x, 4)\<close>, each yield a double again; which double is the world's to say
  (\<open>float_sub\<close> and \<open>float_round4\<close> below). Clock arithmetic is exact. A character is a code
  point below 256. Any exception caught by \<^verbatim>\<open>except Exception\<close>
  is a value of \<open>py_exception\<close> carrying its message; a FastAPI \<^verbatim>\<open>HTTPException\<close> carries
  the status code and the detail string.
\<close>

datatype py_exception = Exception string

datatype http_exception = HTTPException int string

fun str_of_exception :: "py_exception \<Rightarrow> string" where
  "str_of_exception (Exception msg) = msg"

text \<open>\<^verbatim>\<open>xs[:n]\<close>: a negative bound counts from the end, \<^verbatim>\<open>None\<close> keeps the whole list.\<close>

definition py_slice_to :: "int option \<Rightarrow> 'a list \<Rightarrow> 'a list" where
  "py_slice_to bound xs =
     (case bound of
        None \<Rightarrow> xs
      | Some n \<Rightarrow> (if 0 \<le> n then take (nat n) xs else take (nat (int (length xs) + n)) xs))"

text \<open>\<^verbatim>\<open>xs[-n:]\<close> for a positive literal \<open>n\<close>: the last \<open>n\<close> elements.\<close>

definition py_slice_last :: "nat \<Rightarrow> 'a list \<Rightarrow> 'a list" where
  "py_slice_last n xs = drop (length xs - n) xs"

text \<open>\<^verbatim>\<open>sep.join(xs)\<close>.\<close>

fun py_join :: "string \<Rightarrow> string list \<Rightarrow> string" where
  "py_join sep [] = []"
| "py_join sep [x] = x"
| "py_join sep (x # y # ys) = x @ sep @ py_join sep (y # ys)"

text \<open>
  \<^verbatim>\<open>s.split(sep)\<close> for a non-empty separator: scan from the left, cut at each occurrence of
  \<open>sep\<close>; \<open>cur\<close> holds the current piece reversed. The empty string splits into \<open>['']\<close>.
  (Python raises \<^verbatim>\<open>ValueError\<close> for an empty separator; the source only uses the literals
  \<^verbatim>\<open>','\<close> and \<^verbatim>\<open>'. '\<close>.)
\<close>

function py_split_from :: "string \<Rightarrow> string \<Rightarrow> string \<Rightarrow> string list" where
  "py_split_from sep cur [] = [rev cur]"
| "py_split_from sep cur (c # cs) =
     (if sep \<noteq> [] \<and> take (length sep) (c # cs) = sep
      then rev cur # py_split_from sep [] (drop (length sep) (c # cs))
      else py_split_from sep (c # cur) cs)"
  by pat_completeness auto
termination
  by (relation "measure (\<lambda>(sep, cur, s). length s)") auto

definition py_split :: "string \<Rightarrow> string \<Rightarrow> string list" where
  "py_split sep s = py_split_from sep [] s"

text \<open>
  \<^verbatim>\<open>s.split()\<close>: split on runs of whitespace, no empty pieces. The whitespace code points
  below 256 are 9 to 13, 28 to 32, 133 and 160.
\<close>

definition py_isspace :: "char \<Rightarrow> bool" where
  "py_isspace c = (of_char c \<in> {9, 10, 11, 12, 13, 28, 29, 30, 31, 32, 133, 160 :: nat})"

fun py_split_ws_from :: "string \<Rightarrow> string \<Rightarrow> string list" where
  "py_split_ws_from cur [] = (if cur = [] then [] else [rev cur])"
| "py_split_ws_from cur (c # cs) =
     (if py_isspace c
      then (if cur = [] then py_split_ws_from [] cs else rev cur # py_split_ws_from [] cs)
      else py_split_ws_from (c # cur) cs)"

definition py_split_ws :: "string \<Rightarrow> string list" where
  "py_split_ws s = py_split_ws_from [] s"

definition py_endswith :: "string \<Rightarrow> string \<Rightarrow> bool" where
  "py_endswith s suffix = (length suffix \<le> length s \<and> drop (length s - length suffix) s = suffix)"

text \<open>
  Rounding a real number to four decimals: the nearest multiple of \<open>1/10000\<close>, a tie going
  to the even multiple. The example worlds use it for \<^verbatim>\<open>round(x, 4)\<close>; the model of the code
  does not.
\<close>

definition py_round4 :: "real \<Rightarrow> real" where
  "py_round4 x =
     (let y = x * 10000;
          f = \<lfloor>y\<rfloor>;
          d = y - of_int f
      in of_int (if d < 1 / 2 then f else if 1 / 2 < d then f + 1 else if even f then f else f + 1)
           / 10000)"

text \<open>
  \<^verbatim>\<open>sorted(xs, key=k, reverse=True)\<close> and \<^verbatim>\<open>xs.sort(key=k, reverse=True)\<close>: a stable sort
  into descending key order; elements with equal keys keep their original relative order
  (CPython reverses, sorts stably ascending, reverses again).
\<close>

definition py_sorted_reverse :: "('a \<Rightarrow> 'k::linorder) \<Rightarrow> 'a list \<Rightarrow> 'a list" where
  "py_sorted_reverse k xs = rev (sort_key k (rev xs))"

section \<open>Configuration, world and program state\<close>

text \<open>The fields of \<^verbatim>\<open>config/settings.py\<close> that the modelled code reads.\<close>

record settings =
  google_api_key :: "string option"
  embedding_dimension :: int
  embedding_rate_limit :: int
  llm_rate_limit :: int

text \<open>\<^verbatim>\<open>not settings.google_api_key\<close>: \<^verbatim>\<open>None\<close> and the empty string are both falsy.\<close>

definition api_key_missing :: "settings \<Rightarrow> bool" where
  "api_key_missing cfg = (case google_api_key cfg of None \<Rightarrow> True | Some k \<Rightarrow> k = [])"

text \<open>The metadata dictionary stored with each document; tags are one comma-joined string.\<close>

record metadata =
  md_title :: string
  md_category :: string
  md_tags :: string
  md_difficulty :: string
  md_read_time :: int
  md_author :: string
  md_created_at :: string

text \<open>One record of the Chroma collection, and one row of a \<^verbatim>\<open>collection.query\<close> answer.\<close>

record stored =
  stored_id :: string
  stored_document :: string
  stored_metadata :: metadata
  stored_embedding :: "real list"

record hit =
  hit_id :: string
  hit_document :: string
  hit_metadata :: metadata
  hit_distance :: real

text \<open>The dictionaries the database layer returns, and what the enrichment pass adds.\<close>

record content_item =
  item_id :: string
  title :: string
  content :: string
  category :: string
  tags :: "string list"
  difficulty :: string
  read_time :: int
  author :: string
  created_at :: string

record search_result = content_item +
  similarity_score :: real

record enhanced_result = search_result +
  summary :: string
  relevance_explanation :: string

text \<open>One entry of \<^verbatim>\<open>ContentDatabase.search_stats\<close>.\<close>

record search_stat =
  stat_query :: string
  results_count :: int
  search_time :: real
  timestamp :: real

text \<open>
  Everything outside the repository is a field of the world: the wall clock (the \<open>n\<close>-th
  reading of \<^verbatim>\<open>time.time()\<close> or \<^verbatim>\<open>datetime.now()\<close>), the embedding provider
  (\<^verbatim>\<open>genai.embed_content(...)['embedding']\<close>, which may raise), the nearest-neighbour query of
  the Chroma collection (which may raise), the two LangChain chains as
  \<^verbatim>\<open>initialize_chains\<close> left them (\<^verbatim>\<open>None\<close> when unconfigured; \<^verbatim>\<open>run\<close> may raise), the order
  in which \<^verbatim>\<open>list(set(...))\<close> enumerates a set, the date format of \<^verbatim>\<open>strftime\<close>, whether
  pydantic rejects a result dictionary when \<^verbatim>\<open>ContentResponse(**result)\<close> validates it,
  whether a \<^verbatim>\<open>get\<close>, \<^verbatim>\<open>add\<close> or \<^verbatim>\<open>count\<close> call on the collection raises when it is made at
  clock position \<open>n\<close>, and the double that the float subtraction \<^verbatim>\<open>a - b\<close> and the call
  \<^verbatim>\<open>round(x, 4)\<close> evaluate to.
\<close>

record world =
  settings :: settings
  clock :: "nat \<Rightarrow> real"
  embed_content :: "string \<Rightarrow> py_exception + real list"
  collection_query ::
    "stored list \<Rightarrow> real list \<Rightarrow> int option \<Rightarrow> string option \<times> string option
       \<Rightarrow> py_exception + hit list"
  query_expansion_chain :: "(string \<Rightarrow> py_exception + string list) option"
  summarization_chain :: "(string \<Rightarrow> int \<Rightarrow> py_exception + string) option"
  set_order :: "string list \<Rightarrow> string list"
  strftime :: "real \<Rightarrow> string"
  validation_error :: "search_result \<Rightarrow> py_exception option"
  store_fault :: "nat \<Rightarrow> py_exception option"
  float_sub :: "real \<Rightarrow> real \<Rightarrow> real"
  float_round4 :: "real \<Rightarrow> real"

text \<open>
  The mutable state of the process: the clock position, the log of \<^verbatim>\<open>time.sleep\<close> calls
  (their durations, oldest first), the collection, and the attributes of the global
  \<^verbatim>\<open>ContentDatabase\<close> and \<^verbatim>\<open>LangChainProcessor\<close> instances.
\<close>

record state =
  tick :: nat
  sleeps :: "real list"
  collection :: "stored list"
  search_stats :: "search_stat list"
  last_embedding_call :: real
  embedding_call_count :: int
  last_llm_call :: real
  llm_call_count :: int

text \<open>The state right after both constructors ran on an empty collection.\<close>

definition init_state :: state where
  "init_state =
     \<lparr>tick = 0, sleeps = [], collection = [], search_stats = [],
      last_embedding_call = 0, embedding_call_count = 0,
      last_llm_call = 0, llm_call_count = 0\<rparr>"

text \<open>Reading the clock (\<^verbatim>\<open>time.time()\<close>, \<^verbatim>\<open>datetime.now()\<close>) and sleeping.\<close>

definition time_time :: "world \<Rightarrow> state \<Rightarrow> real \<times> state" where
  "time_time w s = (clock w (tick s), s\<lparr>tick := Suc (tick s)\<rparr>)"

definition time_sleep :: "real \<Rightarrow> state \<Rightarrow> state" where
  "time_sleep d s = s\<lparr>sleeps := sleeps s @ [d]\<rparr>"

section \<open>Rate limiters\<close>

text \<open>\<^verbatim>\<open>ContentDatabase._rate_limit_embedding_calls\<close>.\<close>

definition rate_limit_embedding_calls :: "world \<Rightarrow> state \<Rightarrow> state" where
  "rate_limit_embedding_calls w s0 =
     (let (current_time, s1) = time_time w s0;
          s2 = (if 60 < current_time - last_embedding_call s1
                then s1\<lparr>embedding_call_count := 0, last_embedding_call := current_time\<rparr>
                else s1);
          s3 = (if embedding_rate_limit (settings w) \<le> embedding_call_count s2
                then (let sleep_time = 60 - (current_time - last_embedding_call s2)
                      in if 0 < sleep_time
                         then (let s4 = time_sleep sleep_time s2;
                                   s5 = s4\<lparr>embedding_call_count := 0\<rparr>;
                                   (woke, s6) = time_time w s5
                               in s6\<lparr>last_embedding_call := woke\<rparr>)
                         else s2)
                else s2)
      in s3\<lparr>embedding_call_count := embedding_call_count s3 + 1\<rparr>)"

text \<open>\<^verbatim>\<open>LangChainProcessor._rate_limit_llm_calls\<close>.\<close>

definition rate_limit_llm_calls :: "world \<Rightarrow> state \<Rightarrow> state" where
  "rate_limit_llm_calls w s0 =
     (let (current_time, s1) = time_time w s0;
          s2 = (if 60 < current_time - last_llm_call s1
                then s1\<lparr>llm_call_count := 0, last_llm_call := current_time\<rparr>
                else s1);
          s3 = (if llm_rate_limit (settings w) \<le> llm_call_count s2
                then (let sleep_time = 60 - (current_time - last_llm_call s2)
                      in if 0 < sleep_time
                         then (let s4 = time_sleep sleep_time s2;
                                   s5 = s4\<lparr>llm_call_count := 0\<rparr>;
                                   (woke, s6) = time_time w s5
                               in s6\<lparr>last_llm_call := woke\<rparr>)
                         else s2)
                else s2)
      in s3\<lparr>llm_call_count := llm_call_count s3 + 1\<rparr>)"

section \<open>Embedding provider\<close>

text \<open>\<^verbatim>\<open>ContentDatabase.generate_embedding\<close>: the vector and the state after the call.\<close>

definition dummy_embedding :: "settings \<Rightarrow> real list" where
  "dummy_embedding cfg = replicate (nat (embedding_dimension cfg)) 0.1"

definition generate_embedding :: "world \<Rightarrow> string \<Rightarrow> state \<Rightarrow> real list \<times> state" where
  "generate_embedding w text s =
     (if api_key_missing (settings w) then (dummy_embedding (settings w), s)
      else
        (let s1 = rate_limit_embedding_calls w s;
             dim = embedding_dimension (settings w)
         in case embed_content w text of
              Inl e \<Rightarrow> (dummy_embedding (settings w), s1)
            | Inr embedding \<Rightarrow>
                (if int (length embedding) \<noteq> dim
                 then (if int (length embedding) < dim
                       then (embedding @ replicate (nat (dim - int (length embedding))) 0, s1)
                       else (py_slice_to (Some dim) embedding, s1))
                 else (embedding, s1))))"

section \<open>The database layer (\<^verbatim>\<open>backend/database.py\<close>)\<close>

text \<open>
  The Chroma collection is a third-party store: here it is the list of its records in
  insertion order. \<^verbatim>\<open>collection.get(ids=[i])\<close> answers with the records whose id is \<open>i\<close>,
  \<^verbatim>\<open>collection.add\<close> appends a record and leaves the collection alone when the id is already
  present, \<^verbatim>\<open>collection.count()\<close> is the length. Each of these calls raises when the world's
  \<open>store_fault\<close> says so; the nearest-neighbour query is the world's own function.
\<close>

definition collection_get :: "stored list \<Rightarrow> string \<Rightarrow> stored list" where
  "collection_get coll cid = filter (\<lambda>r. stored_id r = cid) coll"

definition collection_add :: "stored list \<Rightarrow> stored \<Rightarrow> stored list" where
  "collection_add coll r = (if stored_id r \<in> stored_id ` set coll then coll else coll @ [r])"

text \<open>\<^verbatim>\<open>if category_filter:\<close> treats \<^verbatim>\<open>None\<close> and the empty string alike.\<close>

definition truthy :: "string option \<Rightarrow> string option" where
  "truthy x = (case x of None \<Rightarrow> None | Some v \<Rightarrow> (if v = [] then None else Some v))"

text \<open>The dictionary built for one row of the query answer.\<close>

definition result_of_hit :: "world \<Rightarrow> hit \<Rightarrow> real \<Rightarrow> search_result" where
  "result_of_hit w h score =
     \<lparr>item_id = hit_id h,
      title = md_title (hit_metadata h),
      content = hit_document h,
      category = md_category (hit_metadata h),
      tags = py_split '','' (md_tags (hit_metadata h)),
      difficulty = md_difficulty (hit_metadata h),
      read_time = md_read_time (hit_metadata h),
      author = md_author (hit_metadata h),
      created_at = md_created_at (hit_metadata h),
      similarity_score = float_round4 w score\<rparr>"

text \<open>
  The loop over the rows of the answer. \<^verbatim>\<open>similarity_score >= min_similarity\<close> raises
  \<^verbatim>\<open>TypeError\<close> when the threshold is \<^verbatim>\<open>None\<close>; that happens at the first row.
\<close>

fun process_results ::
  "world \<Rightarrow> real option \<Rightarrow> hit list \<Rightarrow> py_exception + search_result list" where
  "process_results w min_similarity [] = Inr []"
| "process_results w min_similarity (h # hs) =
     (case min_similarity of
        None \<Rightarrow> Inl (Exception ''TypeError'')
      | Some m \<Rightarrow>
          (let similarity_score = float_sub w 1 (hit_distance h)
           in case process_results w min_similarity hs of
                Inl e \<Rightarrow> Inl e
              | Inr rest \<Rightarrow>
                  Inr (if m \<le> similarity_score then result_of_hit w h similarity_score # rest
                       else rest)))"

text \<open>
  \<^verbatim>\<open>ContentDatabase.search_content\<close>. The \<^verbatim>\<open>except\<close> branch returns the empty list and
  appends nothing to \<^verbatim>\<open>search_stats\<close>.
\<close>

definition db_search_content ::
  "world \<Rightarrow> string \<Rightarrow> int option \<Rightarrow> string option \<Rightarrow> string option \<Rightarrow> real option
     \<Rightarrow> state \<Rightarrow> search_result list \<times> state" where
  "db_search_content w query max_results category_filter difficulty_filter min_similarity s0 =
     (let (start_time, s1) = time_time w s0;
          (query_embedding, s2) = generate_embedding w query s1;
          where_clause = (truthy category_filter, truthy difficulty_filter)
      in case collection_query w (collection s2) query_embedding max_results where_clause of
           Inl e \<Rightarrow> ([], s2)
         | Inr results \<Rightarrow>
             (case process_results w min_similarity results of
                Inl e \<Rightarrow> ([], s2)
              | Inr content_results \<Rightarrow>
                  (let (end_time, s3) = time_time w s2;
                       (stamp, s4) = time_time w s3
                   in (content_results,
                       s4\<lparr>search_stats := search_stats s4 @
                            [\<lparr>stat_query = query,
                              results_count = int (length content_results),
                              search_time = end_time - start_time,
                              timestamp = stamp\<rparr>]\<rparr>))))"

text \<open>\<^verbatim>\<open>ContentDatabase.get_content_by_id\<close>.\<close>

definition item_of_stored :: "stored \<Rightarrow> content_item" where
  "item_of_stored r =
     \<lparr>item_id = stored_id r,
      title = md_title (stored_metadata r),
      content = stored_document r,
      category = md_category (stored_metadata r),
      tags = py_split '','' (md_tags (stored_metadata r)),
      difficulty = md_difficulty (stored_metadata r),
      read_time = md_read_time (stored_metadata r),
      author = md_author (stored_metadata r),
      created_at = md_created_at (stored_metadata r)\<rparr>"

definition get_content_by_id :: "world \<Rightarrow> string \<Rightarrow> state \<Rightarrow> content_item option" where
  "get_content_by_id w content_id s =
     (case store_fault w (tick s) of
        Some e \<Rightarrow> None
      | None \<Rightarrow>
          (case collection_get (collection s) content_id of
             [] \<Rightarrow> None
           | r # _ \<Rightarrow> Some (item_of_stored r)))"

text \<open>
  \<^verbatim>\<open>ContentDatabase.add_content\<close>; \<open>content_id\<close> is the string \<^verbatim>\<open>str(uuid.uuid4())\<close>
  produced for this call, \<open>content_data\<close> the validated request dictionary. An exception
  of \<^verbatim>\<open>collection.add\<close> is logged and raised again.
\<close>

record content_data =
  cd_title :: string
  cd_content :: string
  cd_category :: string
  cd_tags :: "string list"
  cd_difficulty :: string
  cd_read_time :: int
  cd_author :: string

definition add_content ::
  "world \<Rightarrow> string \<Rightarrow> content_data \<Rightarrow> state \<Rightarrow> (py_exception + string) \<times> state" where
  "add_content w content_id cd s0 =
     (let text_for_embedding = cd_title cd @ '' '' @ cd_content cd;
          (embedding, s1) = generate_embedding w text_for_embedding s0;
          (now, s2) = time_time w s1;
          r = \<lparr>stored_id = content_id,
               stored_document = cd_content cd,
               stored_metadata =
                 \<lparr>md_title = cd_title cd,
                  md_category = cd_category cd,
                  md_tags = py_join '','' (cd_tags cd),
                  md_difficulty = cd_difficulty cd,
                  md_read_time = cd_read_time cd,
                  md_author = cd_author cd,
                  md_created_at = strftime w now\<rparr>,
               stored_embedding = embedding\<rparr>
      in case store_fault w (tick s2) of
           Some e \<Rightarrow> (Inl e, s2)
         | None \<Rightarrow> (Inr content_id, s2\<lparr>collection := collection_add (collection s2) r\<rparr>))"

text \<open>
  \<^verbatim>\<open>d[k] = d.get(k, 0) + 1\<close> on a dictionary kept in insertion order, and the counting
  loops of \<^verbatim>\<open>get_stats\<close> built from it.
\<close>

fun dict_increment :: "(string \<times> int) list \<Rightarrow> string \<Rightarrow> (string \<times> int) list" where
  "dict_increment [] k = [(k, 1)]"
| "dict_increment ((k', c) # kvs) k =
     (if k' = k then (k', c + 1) # kvs else (k', c) # dict_increment kvs k)"

definition count_keys :: "string list \<Rightarrow> (string \<times> int) list" where
  "count_keys ks = foldl dict_increment [] ks"

text \<open>\<^verbatim>\<open>ContentDatabase.get_stats\<close>.\<close>

record stats =
  total_content :: int
  categories :: "(string \<times> int) list"
  total_searches :: int
  average_search_time :: real
  popular_queries :: "(string \<times> int) list"

definition recent_searches :: "search_stat list \<Rightarrow> search_stat list" where
  "recent_searches entries = (if entries \<noteq> [] then py_slice_last 100 entries else [])"

definition get_stats :: "world \<Rightarrow> state \<Rightarrow> stats" where
  "get_stats w s =
     (case store_fault w (tick s) of
        Some e \<Rightarrow>
          \<lparr>total_content = 0, categories = [], total_searches = 0,
           average_search_time = 0.0, popular_queries = []\<rparr>
      | None \<Rightarrow>
          (let total = int (length (collection s));
               cats = count_keys (map (\<lambda>r. md_category (stored_metadata r)) (collection s));
               searches = int (length (search_stats s));
               avg_search_time =
                 sum_list (map search_time (search_stats s)) / of_int (max searches 1);
               query_counts = count_keys (map stat_query (recent_searches (search_stats s)))
           in \<lparr>total_content = total,
               categories = cats,
               total_searches = searches,
               average_search_time = float_round4 w avg_search_time,
               popular_queries = py_slice_to (Some 10) (py_sorted_reverse snd query_counts)\<rparr>))"

text \<open>
  \<^verbatim>\<open>ContentDatabase.get_similar_content\<close>: the inner search uses the defaults of
  \<^verbatim>\<open>search_content\<close> (no filters, threshold \<open>0.0\<close>).
\<close>

definition get_similar_content ::
  "world \<Rightarrow> string \<Rightarrow> int \<Rightarrow> state \<Rightarrow> search_result list \<times> state" where
  "get_similar_content w content_id max_results s =
     (case get_content_by_id w content_id s of
        None \<Rightarrow> ([], s)
      | Some original_content \<Rightarrow>
          (let query_text = title original_content @ '' '' @ content original_content;
               (similar_results, s1) =
                  db_search_content w query_text (Some (max_results + 1)) None None (Some 0.0) s
           in (py_slice_to (Some max_results)
                 (filter (\<lambda>r. item_id r \<noteq> content_id) similar_results), s1)))"

section \<open>Query expansion and enrichment (\<^verbatim>\<open>backend/langchain_integration.py\<close>)\<close>

text \<open>
  \<^verbatim>\<open>LangChainProcessor.expand_query\<close>. The chain's \<^verbatim>\<open>run\<close> yields what
  \<^verbatim>\<open>QueryExpansionParser.parse\<close> made of the model's answer, a list of strings, or raises.
\<close>

definition expand_query :: "world \<Rightarrow> string \<Rightarrow> state \<Rightarrow> string list \<times> state" where
  "expand_query w q s =
     (case query_expansion_chain w of
        None \<Rightarrow> ([q], s)
      | Some chain \<Rightarrow>
          (let s1 = rate_limit_llm_calls w s
           in case chain q of
                Inl e \<Rightarrow> ([q], s1)
              | Inr expanded_queries \<Rightarrow> (set_order w ([q] @ expanded_queries), s1)))"

text \<open>\<^verbatim>\<open>LangChainProcessor.summarize_content\<close>.\<close>

definition summarize_content :: "world \<Rightarrow> string \<Rightarrow> int \<Rightarrow> state \<Rightarrow> string \<times> state" where
  "summarize_content w body max_words s =
     (case summarization_chain w of
        None \<Rightarrow>
          (let sentences = py_split ''. '' body;
               short = py_join ''. '' (py_slice_to (Some 2) sentences)
           in (if \<not> py_endswith short ''.'' then short @ ''.'' else short, s))
      | Some chain \<Rightarrow>
          (if int (length (py_split_ws body)) \<le> max_words then (body, s)
           else
             (let s1 = rate_limit_llm_calls w s
              in case chain body max_words of
                   Inr short \<Rightarrow> (short, s1)
                 | Inl e \<Rightarrow>
                     (let ws = py_split_ws body
                      in if max_words < int (length ws)
                         then (py_join '' '' (py_slice_to (Some max_words) ws) @ ''...'', s1)
                         else (body, s1)))))"

text \<open>
  \<^verbatim>\<open>LangChainProcessor.enhance_search_results\<close>; the query is an argument the source does not
  use.
\<close>

definition relevance_label :: "real \<Rightarrow> string" where
  "relevance_label relevance_score =
     (if 0.8 < relevance_score then ''Highly relevant - strong semantic match''
      else if 0.6 < relevance_score then ''Moderately relevant - good conceptual match''
      else if 0.4 < relevance_score then ''Somewhat relevant - partial match''
      else ''Limited relevance - weak match'')"

fun enhance_search_results ::
  "world \<Rightarrow> search_result list \<Rightarrow> string \<Rightarrow> state \<Rightarrow> enhanced_result list \<times> state" where
  "enhance_search_results w [] q s = ([], s)"
| "enhance_search_results w (result # results) q s =
     (let (short, s1) =
            (if 100 < length (py_split_ws (content result))
             then summarize_content w (content result) 50 s
             else (content result, s));
          enhanced_result =
            search_result.extend result
              (enhanced_result.fields short (relevance_label (similarity_score result)));
          (rest, s2) = enhance_search_results w results q s1
      in (enhanced_result # rest, s2))"

section \<open>The search endpoint (\<^verbatim>\<open>backend/main.py\<close>)\<close>

record search_request =
  req_query :: string
  req_max_results :: "int option"
  req_category_filter :: "string option"
  req_difficulty_filter :: "string option"
  req_min_similarity :: "real option"

record search_response =
  resp_query :: string
  resp_results :: "search_result list"
  resp_total_results :: int
  resp_search_time :: real

text \<open>
  The inner loop of the merge: a result is appended when its id is not in \<^verbatim>\<open>seen_ids\<close>,
  and skipped otherwise.
\<close>

fun add_unique ::
  "search_result list \<Rightarrow> search_result list \<times> string set \<Rightarrow> search_result list \<times> string set" where
  "add_unique [] (all_results, seen_ids) = (all_results, seen_ids)"
| "add_unique (result # results) (all_results, seen_ids) =
     (if item_id result \<notin> seen_ids
      then add_unique results (all_results @ [result], insert (item_id result) seen_ids)
      else add_unique results (all_results, seen_ids))"

text \<open>The outer loop: one database search per expanded query, in the order of the list.\<close>

fun search_variants ::
  "world \<Rightarrow> search_request \<Rightarrow> string list \<Rightarrow> search_result list \<times> string set \<Rightarrow> state
     \<Rightarrow> (search_result list \<times> string set) \<times> state" where
  "search_variants w request [] acc s = (acc, s)"
| "search_variants w request (q # qs) acc s =
     (let (results, s1) =
            db_search_content w q (req_max_results request) (req_category_filter request)
              (req_difficulty_filter request) (req_min_similarity request) s
      in search_variants w request qs (add_unique results acc) s1)"

text \<open>
  \<^verbatim>\<open>[ContentResponse(**result) for result in enhanced_results]\<close>: the first result that
  pydantic rejects raises; an accepted result keeps the fields of \<^verbatim>\<open>ContentResponse\<close>, the
  two enrichment keys are ignored.
\<close>

fun content_responses :: "world \<Rightarrow> enhanced_result list \<Rightarrow> py_exception + search_result list" where
  "content_responses w [] = Inr []"
| "content_responses w (r # rs) =
     (case validation_error w (search_result.truncate r) of
        Some e \<Rightarrow> Inl e
      | None \<Rightarrow>
          (case content_responses w rs of
             Inl e \<Rightarrow> Inl e
           | Inr crs \<Rightarrow> Inr (search_result.truncate r # crs)))"

text \<open>
  The \<^verbatim>\<open>/search\<close> handler \<^verbatim>\<open>search_content\<close>: an exception inside the \<^verbatim>\<open>try\<close> block is
  re-raised as \<^verbatim>\<open>HTTPException(500)\<close>.
\<close>

definition search_content ::
  "world \<Rightarrow> search_request \<Rightarrow> state \<Rightarrow> (http_exception + search_response) \<times> state" where
  "search_content w request s0 =
     (let (start_time, s1) = time_time w s0;
          (expanded_queries, s2) = expand_query w (req_query request) s1;
          ((all_results, seen_ids), s3) = search_variants w request expanded_queries ([], {}) s2;
          sorted_results = py_sorted_reverse similarity_score all_results;
          final_results = py_slice_to (req_max_results request) sorted_results;
          (enhanced_results, s4) =
             enhance_search_results w final_results (req_query request) s3;
          (end_time, s5) = time_time w s4
      in case content_responses w enhanced_results of
           Inl e \<Rightarrow> (Inl (HTTPException 500 (''Search failed: '' @ str_of_exception e)), s5)
         | Inr rs \<Rightarrow>
             (Inr \<lparr>resp_query = req_query request,
                   resp_results = rs,
                   resp_total_results = int (length rs),
                   resp_search_time = float_round4 w (end_time - start_time)\<rparr>, s5))"

section \<open>Notions used to state the properties\<close>

text \<open>
  The body of the \<^verbatim>\<open>try\<close> block of the database search for one query variant, as a
  value: the result list it returns, or the exception it raises (the vector query's, or the
  \<^verbatim>\<open>TypeError\<close> of the threshold comparison). It depends on the world and on the collection
  only; \<open>db_search_content_fst\<close> and \<open>db_search_content_stats\<close> below relate it to the
  stateful function.
\<close>

definition db_search_outcome ::
  "world \<Rightarrow> search_request \<Rightarrow> stored list \<Rightarrow> string \<Rightarrow> py_exception + search_result list" where
  "db_search_outcome w request coll q =
     (case collection_query w coll (fst (generate_embedding w q init_state))
             (req_max_results request)
             (truthy (req_category_filter request), truthy (req_difficulty_filter request)) of
        Inl e \<Rightarrow> Inl e
      | Inr hits \<Rightarrow> process_results w (req_min_similarity request) hits)"

text \<open>What the database search hands back to the endpoint for one variant.\<close>

definition variant_results ::
  "world \<Rightarrow> search_request \<Rightarrow> stored list \<Rightarrow> string \<Rightarrow> search_result list" where
  "variant_results w request coll q =
     (case db_search_outcome w request coll q of Inl e \<Rightarrow> [] | Inr rs \<Rightarrow> rs)"

text \<open>
  The expanded queries of a request, in the order the endpoint visits them; the list does not
  depend on the state (\<open>expand_query_fst_state\<close> below).
\<close>

definition variants :: "world \<Rightarrow> search_request \<Rightarrow> string list" where
  "variants w request = fst (expand_query w (req_query request) init_state)"

text \<open>
  First-seen-wins, in the words of the specification: walk the list, keep a result when its
  id has not been seen, drop it otherwise.
\<close>

fun first_seen_from :: "string set \<Rightarrow> search_result list \<Rightarrow> search_result list" where
  "first_seen_from seen [] = []"
| "first_seen_from seen (r # rs) =
     (if item_id r \<in> seen then first_seen_from seen rs
      else r # first_seen_from (insert (item_id r) seen) rs)"

definition merged_results :: "world \<Rightarrow> search_request \<Rightarrow> stored list \<Rightarrow> search_result list" where
  "merged_results w request coll =
     first_seen_from {} (concat (map (variant_results w request coll) (variants w request)))"

definition final_results :: "world \<Rightarrow> search_request \<Rightarrow> stored list \<Rightarrow> search_result list" where
  "final_results w request coll =
     py_slice_to (req_max_results request)
       (py_sorted_reverse similarity_score (merged_results w request coll))"

text \<open>The result list the caller of the endpoint sees; none when the handler raised.\<close>

definition response_results :: "http_exception + search_response \<Rightarrow> search_result list" where
  "response_results out = (case out of Inl e \<Rightarrow> [] | Inr resp \<Rightarrow> resp_results resp)"


text \<open>
  What is known of \<^verbatim>\<open>list(set(xs))\<close>: each element of \<open>xs\<close> once, in some order.
\<close>

definition enumerates_set :: "(string list \<Rightarrow> string list) \<Rightarrow> bool" where
  "enumerates_set f = (\<forall>xs. distinct (f xs) \<and> set (f xs) = set xs)"

text \<open>The position at which a key is first encountered in a list.\<close>

definition first_index :: "string list \<Rightarrow> string \<Rightarrow> nat" where
  "first_index ks k = length (takeWhile (\<lambda>x. x \<noteq> k) ks)"

section \<open>Example worlds\<close>

definition example_metadata :: metadata where
  "example_metadata =
     \<lparr>md_title = ''Intro to Go'', md_category = ''Technology'', md_tags = ''go,systems'',
      md_difficulty = ''Beginner'', md_read_time = 5, md_author = ''Ann'',
      md_created_at = ''2024-01-01''\<rparr>"

definition example_hit :: "string \<Rightarrow> real \<Rightarrow> hit" where
  "example_hit i d =
     \<lparr>hit_id = i, hit_document = ''Go is a systems language'',
      hit_metadata = example_metadata, hit_distance = d\<rparr>"

definition example_result :: "string \<Rightarrow> real \<Rightarrow> search_result" where
  "example_result i sc =
     \<lparr>item_id = i, title = ''Intro to Go'', content = ''Go is a systems language'',
      category = ''Technology'', tags = [''go'', ''systems''], difficulty = ''Beginner'',
      read_time = 5, author = ''Ann'', created_at = ''2024-01-01'', similarity_score = sc\<rparr>"

text \<open>One possible enumeration order of a set: by first occurrence.\<close>

definition first_occurrences :: "string list \<Rightarrow> string list" where
  "first_occurrences xs = rev (remdups (rev xs))"

text \<open>
  A configured world of dimension 3. The provider answers \<^verbatim>\<open>q1\<close> with a vector of the right
  length, \<^verbatim>\<open>q2\<close> with a short one, \<^verbatim>\<open>long\<close> with a long one, and fails on every other text.
  Query \<^verbatim>\<open>q1\<close> expands to \<^verbatim>\<open>q1\<close> and \<^verbatim>\<open>q2\<close>; item \<^verbatim>\<open>A\<close> is at distance \<open>0.1\<close> from
  \<^verbatim>\<open>q1\<close> and at distance \<open>0.05\<close> from \<^verbatim>\<open>q2\<close>.
\<close>

definition example_world :: world where
  "example_world =
     \<lparr>settings = \<lparr>google_api_key = Some ''key'', embedding_dimension = 3,
                   embedding_rate_limit = 1500, llm_rate_limit = 15\<rparr>,
      clock = (\<lambda>n. 1000 + of_nat n),
      embed_content =
        (\<lambda>t. if t = ''q1'' then Inr [1, 0, 0]
             else if t = ''q2'' then Inr [0, 1]
             else if t = ''long'' then Inr [1, 2, 3, 4, 5]
             else Inl (Exception ''quota exceeded'')),
      collection_query =
        (\<lambda>coll v n flt.
           if v = [1, 0, 0] then Inr [example_hit ''A'' 0.1]
           else if v = [0, 1, 0] then Inr [example_hit ''A'' 0.05, example_hit ''B'' 0.29996]
           else Inr [example_hit ''A'' 0, example_hit ''C'' 0.4]),
      query_expansion_chain =
        Some (\<lambda>q. if q = ''q1'' then Inr [''q2'', ''q1''] else Inl (Exception ''llm error'')),
      summarization_chain = None,
      set_order = first_occurrences,
      strftime = (\<lambda>t. ''2024-01-01''),
      validation_error = (\<lambda>r. None),
      store_fault = (\<lambda>n. None),
      float_sub = (\<lambda>a b. a - b),
      float_round4 = py_round4\<rparr>"

definition example_request :: search_request where
  "example_request =
     \<lparr>req_query = ''q1'', req_max_results = Some 10, req_category_filter = None,
      req_difficulty_filter = None, req_min_similarity = Some 0\<rparr>"

text \<open>The same request with a threshold that is not a multiple of \<open>0.0001\<close>.\<close>

definition threshold_request :: search_request where
  "threshold_request = example_request\<lparr>req_min_similarity := Some 0.70001\<rparr>"

text \<open>The example world without credentials: no chains, placeholder embeddings.\<close>

definition offline_world :: world where
  "offline_world =
     example_world
       \<lparr>settings := (settings example_world)\<lparr>google_api_key := None\<rparr>,
        query_expansion_chain := None\<rparr>"

text \<open>The example world with both calls-per-minute limits set to zero.\<close>

definition zero_limit_world :: world where
  "zero_limit_world =
     example_world
       \<lparr>settings := (settings example_world)\<lparr>embedding_rate_limit := 0, llm_rate_limit := 0\<rparr>\<rparr>"

text \<open>The example world with a vector store that fails on the query for \<^verbatim>\<open>q1\<close>.\<close>

definition flaky_store_world :: world where
  "flaky_store_world =
     example_world
       \<lparr>collection_query :=
          (\<lambda>coll v n flt.
             if v = [1, 0, 0] then Inl (Exception ''store unavailable'')
             else collection_query example_world coll v n flt)\<rparr>"

text \<open>The example world with a vector store that fails on every query.\<close>

definition dead_store_world :: world where
  "dead_store_world =
     example_world
       \<lparr>collection_query := (\<lambda>coll v n flt. Inl (Exception ''store unavailable''))\<rparr>"

text \<open>The example world in which pydantic rejects every result dictionary.\<close>

definition rejecting_world :: world where
  "rejecting_world =
     example_world\<lparr>validation_error := (\<lambda>r. Some (Exception ''validation error''))\<rparr>"

text \<open>The example world with a collection whose calls always raise.\<close>

definition broken_store_world :: world where
  "broken_store_world =
     example_world\<lparr>store_fault := (\<lambda>n. Some (Exception ''collection unavailable''))\<rparr>"

text \<open>A state in the middle of a rate-limit window, ten seconds after its start.\<close>

definition busy_state :: state where
  "busy_state =
     init_state\<lparr>last_embedding_call := 990, embedding_call_count := 3,
                 last_llm_call := 990, llm_call_count := 3\<rparr>"

text \<open>A collection that holds item \<^verbatim>\<open>A\<close>.\<close>

definition example_stored :: stored where
  "example_stored =
     \<lparr>stored_id = ''A'', stored_document = ''Go is a systems language'',
      stored_metadata = example_metadata, stored_embedding = [1, 0, 0]\<rparr>"

definition stocked_state :: state where
  "stocked_state = init_state\<lparr>collection := [example_stored]\<rparr>"

text \<open>A log of 101 searches: one for \<^verbatim>\<open>old\<close>, then a hundred for \<^verbatim>\<open>new\<close>.\<close>

definition example_stat :: "string \<Rightarrow> search_stat" where
  "example_stat q = \<lparr>stat_query = q, results_count = 1, search_time = 0.5, timestamp = 1000\<rparr>"

definition long_log_state :: state where
  "long_log_state =
     init_state\<lparr>search_stats := example_stat ''old'' # replicate 100 (example_stat ''new'')\<rparr>"

text \<open>A short log with a tie: \<^verbatim>\<open>b\<close> and \<^verbatim>\<open>a\<close> are both searched twice, \<^verbatim>\<open>b\<close> first.\<close>

definition tied_log_state :: state where
  "tied_log_state =
     init_state\<lparr>search_stats := map example_stat [''b'', ''c'', ''a'', ''a'', ''b'']\<rparr>"

text \<open>Two requests to add content: one with tags, one without.\<close>

definition example_content :: content_data where
  "example_content =
     \<lparr>cd_title = ''Intro to Go'', cd_content = ''Go is a systems language'',
      cd_category = ''Technology'', cd_tags = [''go'', ''systems''],
      cd_difficulty = ''Beginner'', cd_read_time = 5, cd_author = ''Ann''\<rparr>"

definition untagged_content :: content_data where
  "untagged_content = example_content\<lparr>cd_tags := []\<rparr>"

section \<open>Lemmas about the model\<close>

subsection \<open>Rate limiters\<close>

lemma rate_limit_embedding_calls_count:
  "0 \<le> embedding_call_count s \<Longrightarrow> 1 \<le> embedding_call_count (rate_limit_embedding_calls w s)"
  by (auto simp: rate_limit_embedding_calls_def time_time_def time_sleep_def Let_def)

lemma rate_limit_llm_calls_count:
  "0 \<le> llm_call_count s \<Longrightarrow> 1 \<le> llm_call_count (rate_limit_llm_calls w s)"
  by (auto simp: rate_limit_llm_calls_def time_time_def time_sleep_def Let_def)

lemma rate_limit_embedding_calls_below_limit:
  assumes "0 \<le> embedding_call_count s"
    and "embedding_call_count s < embedding_rate_limit (settings w)"
  shows "sleeps (rate_limit_embedding_calls w s) = sleeps s"
  using assms
  by (auto simp: rate_limit_embedding_calls_def time_time_def time_sleep_def Let_def)

lemma rate_limit_llm_calls_below_limit:
  assumes "0 \<le> llm_call_count s" and "llm_call_count s < llm_rate_limit (settings w)"
  shows "sleeps (rate_limit_llm_calls w s) = sleeps s"
  using assms
  by (auto simp: rate_limit_llm_calls_def time_time_def time_sleep_def Let_def)

subsection \<open>Parts of the state that a call leaves alone, and values that do not depend on the state\<close>

lemma rate_limit_embedding_calls_frame:
  "collection (rate_limit_embedding_calls w s) = collection s"
  "search_stats (rate_limit_embedding_calls w s) = search_stats s"
  by (simp_all add: rate_limit_embedding_calls_def time_time_def time_sleep_def Let_def)

lemma rate_limit_llm_calls_frame:
  "collection (rate_limit_llm_calls w s) = collection s"
  "search_stats (rate_limit_llm_calls w s) = search_stats s"
  by (simp_all add: rate_limit_llm_calls_def time_time_def time_sleep_def Let_def)

lemma generate_embedding_fst_state:
  "fst (generate_embedding w text s) = fst (generate_embedding w text s')"
  by (simp add: generate_embedding_def Let_def split: sum.splits)

lemma generate_embedding_frame:
  "collection (snd (generate_embedding w text s)) = collection s"
  "search_stats (snd (generate_embedding w text s)) = search_stats s"
  by (simp_all add: generate_embedding_def Let_def rate_limit_embedding_calls_frame
      split: sum.splits)

lemma expand_query_fst_state:
  "fst (expand_query w q s) = fst (expand_query w q s')"
  by (simp add: expand_query_def Let_def split: option.splits sum.splits)

lemma expand_query_frame:
  "collection (snd (expand_query w q s)) = collection s"
  "search_stats (snd (expand_query w q s)) = search_stats s"
  by (simp_all add: expand_query_def Let_def rate_limit_llm_calls_frame
      split: option.splits sum.splits)


lemma db_search_content_collection:
  "collection (snd (db_search_content w q mr cf df ms s)) = collection s"
  by (simp add: db_search_content_def time_time_def Let_def split_beta generate_embedding_frame
      split: sum.splits)

subsection \<open>The database search as a value\<close>

lemma db_search_content_fst:
  "fst (db_search_content w q (req_max_results request) (req_category_filter request)
          (req_difficulty_filter request) (req_min_similarity request) s)
   = variant_results w request (collection s) q"
proof -
  have e: "fst (generate_embedding w q (s\<lparr>tick := Suc (tick s)\<rparr>))
      = fst (generate_embedding w q init_state)"
    by (rule generate_embedding_fst_state)
  have c: "collection (snd (generate_embedding w q (s\<lparr>tick := Suc (tick s)\<rparr>))) = collection s"
    by (simp add: generate_embedding_frame)
  show ?thesis
    using e c
    by (simp add: db_search_content_def variant_results_def db_search_outcome_def time_time_def
        Let_def split_beta split: sum.splits)
qed



lemma db_search_content_raise:
  assumes "isl (db_search_outcome w request (collection s) q)"
  shows "fst (db_search_content w q (req_max_results request)
            (req_category_filter request) (req_difficulty_filter request)
            (req_min_similarity request) s) = []"
    and "search_stats (snd (db_search_content w q (req_max_results request)
            (req_category_filter request) (req_difficulty_filter request)
            (req_min_similarity request) s)) = search_stats s"
proof -
  have e: "fst (generate_embedding w q (s\<lparr>tick := Suc (tick s)\<rparr>))
      = fst (generate_embedding w q init_state)"
    by (rule generate_embedding_fst_state)
  have c: "collection (snd (generate_embedding w q (s\<lparr>tick := Suc (tick s)\<rparr>))) = collection s"
    by (simp add: generate_embedding_frame)
  show "fst (db_search_content w q (req_max_results request)
            (req_category_filter request) (req_difficulty_filter request)
            (req_min_similarity request) s) = []"
    using assms by (auto simp: db_search_content_fst variant_results_def split: sum.splits)
  show "search_stats (snd (db_search_content w q (req_max_results request)
            (req_category_filter request) (req_difficulty_filter request)
            (req_min_similarity request) s)) = search_stats s"
    using assms e c
    by (auto simp: db_search_content_def db_search_outcome_def time_time_def
        Let_def split_beta generate_embedding_frame split: sum.splits)
qed


subsection \<open>The merge keeps first occurrences\<close>

lemma first_seen_from_append:
  "first_seen_from seen (xs @ ys)
   = first_seen_from seen xs @ first_seen_from (seen \<union> item_id ` set xs) ys"
  by (induction xs arbitrary: seen) (simp_all add: insert_absorb)

lemma add_unique_first_seen:
  "add_unique rs (acc, seen) = (acc @ first_seen_from seen rs, seen \<union> item_id ` set rs)"
  by (induction rs arbitrary: acc seen) (simp_all add: insert_absorb)

lemma first_seen_from_ids:
  "item_id ` set (first_seen_from seen xs) = item_id ` set xs - seen"
  by (induction xs arbitrary: seen) auto

lemma first_seen_from_not_seen:
  "r \<in> set (first_seen_from seen xs) \<Longrightarrow> item_id r \<notin> seen"
  using first_seen_from_ids [of seen xs] by blast

lemma first_seen_from_find:
  "r \<in> set (first_seen_from seen xs) \<Longrightarrow> find (\<lambda>x. item_id x = item_id r) xs = Some r"
proof (induction xs arbitrary: seen)
  case Nil
  then show ?case by simp
next
  case (Cons x xs)
  show ?case
  proof (cases "item_id x \<in> seen")
    case True
    with Cons.prems have r: "r \<in> set (first_seen_from seen xs)" by simp
    from first_seen_from_not_seen [OF r] True have "item_id x \<noteq> item_id r" by auto
    with Cons.IH [OF r] show ?thesis by simp
  next
    case False
    with Cons.prems have "r = x \<or> r \<in> set (first_seen_from (insert (item_id x) seen) xs)"
      by auto
    then show ?thesis
    proof
      assume "r = x"
      then show ?thesis by simp
    next
      assume r: "r \<in> set (first_seen_from (insert (item_id x) seen) xs)"
      from first_seen_from_not_seen [OF r] have "item_id x \<noteq> item_id r" by auto
      with Cons.IH [OF r] show ?thesis by simp
    qed
  qed
qed


lemma search_variants_merge:
  "search_variants w request qs (acc, seen) s = (res, s') \<Longrightarrow>
     res = (acc @ first_seen_from seen (concat (map (variant_results w request (collection s)) qs)),
            seen \<union> item_id ` set (concat (map (variant_results w request (collection s)) qs)))
     \<and> collection s' = collection s"
proof (induction qs arbitrary: acc seen s)
  case Nil
  then show ?case by simp
next
  case (Cons q qs)
  let ?d = "db_search_content w q (req_max_results request) (req_category_filter request)
          (req_difficulty_filter request) (req_min_similarity request) s"
  have f: "fst ?d = variant_results w request (collection s) q"
    by (rule db_search_content_fst)
  have c: "collection (snd ?d) = collection s"
    by (rule db_search_content_collection)
  from Cons.prems have
    "search_variants w request qs
       (acc @ first_seen_from seen (variant_results w request (collection s) q),
        seen \<union> item_id ` set (variant_results w request (collection s) q)) (snd ?d) = (res, s')"
    using f by (simp add: split_beta add_unique_first_seen)
  from Cons.IH [OF this] c show ?case
    by (simp add: first_seen_from_append Un_assoc image_Un)
qed


subsection \<open>Sorting and slicing\<close>


lemma py_sorted_reverse_set: "set (py_sorted_reverse k xs) = set xs"
  by (simp add: py_sorted_reverse_def)


lemma py_slice_to_take: "\<exists>n. py_slice_to b xs = take n xs"
proof (cases b)
  case None
  have "py_slice_to None xs = take (length xs) xs" by (simp add: py_slice_to_def)
  with None show ?thesis by blast
next
  case (Some n)
  then show ?thesis by (auto simp: py_slice_to_def)
qed

lemma py_slice_to_set: "set (py_slice_to b xs) \<subseteq> set xs"
  using py_slice_to_take [of b xs] by (auto dest: in_set_takeD)


lemma sorted_wrt_filter_iff:
  "sorted_wrt R (filter P xs) = sorted_wrt (\<lambda>a b. P a \<and> P b \<longrightarrow> R a b) xs"
  by (induction xs) auto

lemma py_sorted_reverse_stable:
  "filter (\<lambda>x. k x = c) (py_sorted_reverse k xs) = filter (\<lambda>x. k x = c) xs"
  by (simp add: py_sorted_reverse_def rev_filter [symmetric] sort_key_stable)

lemma py_sorted_reverse_descending:
  "sorted_wrt (\<lambda>a b. k b \<le> k a) (py_sorted_reverse k xs)"
proof -
  have "sorted (map k (sort_key k (rev xs)))" by (rule sorted_sort_key)
  then have "sorted_wrt (\<lambda>a b. k a \<le> k b) (sort_key k (rev xs))"
    by (simp add: sorted_wrt_map)
  then show ?thesis by (simp add: py_sorted_reverse_def sorted_wrt_rev)
qed

lemma py_sorted_reverse_ties:
  assumes "sorted_wrt R xs"
  shows "sorted_wrt (\<lambda>a b. k a = k b \<longrightarrow> R a b) (py_sorted_reverse k xs)"
proof -
  have "sorted_wrt (\<lambda>a b. k a = c \<and> k b = c \<longrightarrow> R a b) (py_sorted_reverse k xs)" for c
  proof -
    have "sorted_wrt R (filter (\<lambda>x. k x = c) xs)" using assms by (rule sorted_wrt_filter)
    then have "sorted_wrt R (filter (\<lambda>x. k x = c) (py_sorted_reverse k xs))"
      by (simp add: py_sorted_reverse_stable)
    then show ?thesis by (simp add: sorted_wrt_filter_iff)
  qed
  then show ?thesis
    by (simp add: sorted_wrt_iff_nth_less)
qed

subsection \<open>The endpoint in terms of the final results\<close>

lemma enhance_search_results_truncate:
  "map search_result.truncate (fst (enhance_search_results w rs q s)) = rs"
  by (induction rs arbitrary: s)
     (simp_all add: split_beta Let_def search_result.defs enhanced_result.defs content_item.defs)

lemma content_responses_find:
  "content_responses w es =
     (case find (\<lambda>r. validation_error w r \<noteq> None) (map search_result.truncate es) of
        None \<Rightarrow> Inr (map search_result.truncate es)
      | Some r \<Rightarrow> Inl (the (validation_error w r)))"
  by (induction es) (auto split: option.splits sum.splits)

lemma search_content_fst:
  "fst (search_content w request s) =
     (case find (\<lambda>r. validation_error w r \<noteq> None) (final_results w request (collection s)) of
        None \<Rightarrow>
          Inr \<lparr>resp_query = req_query request,
               resp_results = final_results w request (collection s),
               resp_total_results = int (length (final_results w request (collection s))),
               resp_search_time = resp_search_time (projr (fst (search_content w request s)))\<rparr>
      | Some r \<Rightarrow>
          Inl (HTTPException 500
                 (''Search failed: '' @ str_of_exception (the (validation_error w r)))))"
proof -
  obtain s1 where s1: "s1 = s\<lparr>tick := Suc (tick s)\<rparr>" by simp
  obtain qs s2 where e: "expand_query w (req_query request) s1 = (qs, s2)" by fastforce
  obtain acc s3 where v: "search_variants w request qs ([], {}) s2 = (acc, s3)" by fastforce
  have qs: "qs = variants w request"
    using e expand_query_fst_state [of w "req_query request" s1 init_state]
    by (simp add: variants_def)
  have c2: "collection s2 = collection s"
    using e expand_query_frame(1) [of w "req_query request" s1] s1 by simp
  from search_variants_merge [OF v] c2 qs
  have acc: "fst acc = merged_results w request (collection s)"
    by (simp add: merged_results_def)
  show ?thesis
    using e v s1 acc
    by (simp add: search_content_def time_time_def Let_def split_beta final_results_def
        content_responses_find enhance_search_results_truncate split: option.splits)
qed

lemma search_content_response_results:
  "response_results (fst (search_content w request s)) =
     (case find (\<lambda>r. validation_error w r \<noteq> None) (final_results w request (collection s)) of
        None \<Rightarrow> final_results w request (collection s)
      | Some r \<Rightarrow> [])"
  by (subst search_content_fst) (simp add: response_results_def split: option.splits)

lemma response_results_subset:
  "set (response_results (fst (search_content w request s)))
     \<subseteq> set (merged_results w request (collection s))"
  using py_slice_to_set py_sorted_reverse_set
  by (fastforce simp: search_content_response_results final_results_def split: option.splits)


subsection \<open>Rounding to four decimals\<close>

lemma py_round4_cases:
  fixes x :: real
  obtains f :: int where "of_int f \<le> x * 10000" "x * 10000 < of_int f + 1"
    "py_round4 x = of_int f / 10000 \<and> x * 10000 - of_int f \<le> 1 / 2
       \<or> py_round4 x = (of_int f + 1) / 10000 \<and> 1 / 2 \<le> x * 10000 - of_int f"
proof -
  have a: "of_int \<lfloor>x * 10000\<rfloor> \<le> x * 10000" by simp
  have b: "x * 10000 < of_int \<lfloor>x * 10000\<rfloor> + 1" by linarith
  have c: "py_round4 x = of_int \<lfloor>x * 10000\<rfloor> / 10000
             \<and> x * 10000 - of_int \<lfloor>x * 10000\<rfloor> \<le> 1 / 2
       \<or> py_round4 x = (of_int \<lfloor>x * 10000\<rfloor> + 1) / 10000
             \<and> 1 / 2 \<le> x * 10000 - of_int \<lfloor>x * 10000\<rfloor>"
    by (auto simp: py_round4_def Let_def)
  from that [OF a b c] show thesis .
qed

lemma py_round4_lower: "x - 1 / 20000 \<le> py_round4 x"
proof -
  obtain f :: int where f: "of_int f \<le> x * 10000" "x * 10000 < of_int f + 1"
    "py_round4 x = of_int f / 10000 \<and> x * 10000 - of_int f \<le> 1 / 2
       \<or> py_round4 x = (of_int f + 1) / 10000 \<and> 1 / 2 \<le> x * 10000 - of_int f"
    by (rule py_round4_cases)
  from f(3) f(1) f(2) show ?thesis by (auto simp: field_simps)
qed

lemma py_round4_grid:
  assumes "of_int k / 10000 \<le> x"
  shows "of_int k / 10000 \<le> py_round4 x"
proof -
  obtain f :: int where f: "of_int f \<le> x * 10000" "x * 10000 < of_int f + 1"
    "py_round4 x = of_int f / 10000 \<and> x * 10000 - of_int f \<le> 1 / 2
       \<or> py_round4 x = (of_int f + 1) / 10000 \<and> 1 / 2 \<le> x * 10000 - of_int f"
    by (rule py_round4_cases)
  from assms have "of_int k \<le> x * 10000" by (simp add: field_simps)
  with f(2) have "(of_int k :: real) < of_int f + 1" by linarith
  then have "k < f + 1" by linarith
  then have k: "(of_int k :: real) \<le> of_int f" by simp
  from f(3) k show ?thesis by (auto simp: field_simps)
qed

lemma py_round4_upper: "py_round4 x \<le> x + 1 / 20000"
proof -
  obtain f :: int where f: "of_int f \<le> x * 10000" "x * 10000 < of_int f + 1"
    "py_round4 x = of_int f / 10000 \<and> x * 10000 - of_int f \<le> 1 / 2
       \<or> py_round4 x = (of_int f + 1) / 10000 \<and> 1 / 2 \<le> x * 10000 - of_int f"
    by (rule py_round4_cases)
  from f(3) f(1) f(2) show ?thesis by (auto simp: field_simps)
qed

lemma py_round4_mono:
  assumes "x \<le> y"
  shows "py_round4 x \<le> py_round4 y"
proof -
  let ?f = "\<lfloor>x * 10000\<rfloor>" and ?g = "\<lfloor>y * 10000\<rfloor>"
  from assms have le: "?f \<le> ?g" by (simp add: floor_mono)
  show ?thesis
  proof (cases "?f = ?g")
    case True
    have "x * 10000 - of_int ?f \<le> y * 10000 - of_int ?g"
      using assms True by simp
    then show ?thesis
      unfolding py_round4_def Let_def True
      by (simp add: divide_right_mono)
  next
    case False
    with le have "?f + 1 \<le> ?g" by simp
    then have "(of_int ?f + 1 :: real) \<le> of_int ?g"
      by (metis of_int_1 of_int_add of_int_le_iff)
    moreover have "py_round4 x \<le> (of_int ?f + 1) / 10000"
      by (simp add: py_round4_def Let_def divide_right_mono)
    moreover have "of_int ?g / 10000 \<le> py_round4 y"
      by (simp add: py_round4_def Let_def divide_right_mono)
    ultimately show ?thesis
      by (smt (verit) divide_right_mono)
  qed
qed

subsection \<open>Where a result comes from\<close>

lemma find_Some_in_set: "find P xs = Some x \<Longrightarrow> x \<in> set xs"
  by (induction xs) (auto split: if_splits)

lemma process_results_hit:
  "process_results w (Some m) hits = Inr rs \<Longrightarrow> r \<in> set rs \<Longrightarrow>
     \<exists>h \<in> set hits. r = result_of_hit w h (float_sub w 1 (hit_distance h))
        \<and> m \<le> float_sub w 1 (hit_distance h)"
  by (induction hits arbitrary: rs) (auto simp: Let_def split: sum.splits if_splits)

lemma variant_results_hit:
  assumes "r \<in> set (variant_results w request coll q)" "req_min_similarity request = Some m"
  shows "\<exists>hits.
           collection_query w coll (fst (generate_embedding w q init_state))
             (req_max_results request)
             (truthy (req_category_filter request), truthy (req_difficulty_filter request))
           = Inr hits
         \<and> (\<exists>h \<in> set hits. r = result_of_hit w h (float_sub w 1 (hit_distance h))
               \<and> m \<le> float_sub w 1 (hit_distance h))"
proof (cases "db_search_outcome w request coll q")
  case (Inl e)
  with assms(1) show ?thesis by (simp add: variant_results_def)
next
  case (Inr rs)
  with assms(1) have r: "r \<in> set rs" by (simp add: variant_results_def)
  from Inr assms(2) obtain hits where
    q: "collection_query w coll (fst (generate_embedding w q init_state))
             (req_max_results request)
             (truthy (req_category_filter request), truthy (req_difficulty_filter request))
           = Inr hits"
    and p: "process_results w (Some m) hits = Inr rs"
    by (auto simp: db_search_outcome_def split: sum.splits)
  from process_results_hit [OF p r] q show ?thesis by blast
qed

lemma merged_results_subset:
  "set (merged_results w request coll)
     \<subseteq> (\<Union>q \<in> set (variants w request). set (variant_results w request coll q))"
proof
  fix r assume "r \<in> set (merged_results w request coll)"
  then have "find (\<lambda>x. item_id x = item_id r)
      (concat (map (variant_results w request coll) (variants w request))) = Some r"
    unfolding merged_results_def by (rule first_seen_from_find)
  then have "r \<in> set (concat (map (variant_results w request coll) (variants w request)))"
    by (rule find_Some_in_set)
  then show "r \<in> (\<Union>q \<in> set (variants w request). set (variant_results w request coll q))"
    by auto
qed

subsection \<open>Joining and splitting tags\<close>

lemma py_split_from_no_sep:
  "CHR '','' \<notin> set t \<Longrightarrow> py_split_from '','' cur t = [rev cur @ t]"
  by (induction t arbitrary: cur) auto

lemma py_split_from_sep:
  "CHR '','' \<notin> set t \<Longrightarrow>
     py_split_from '','' cur (t @ '','' @ rest) = (rev cur @ t) # py_split_from '','' [] rest"
  by (induction t arbitrary: cur) auto

lemma py_split_join:
  "ts \<noteq> [] \<Longrightarrow> \<forall>t \<in> set ts. CHR '','' \<notin> set t \<Longrightarrow> py_split '','' (py_join '','' ts) = ts"
proof (induction "'',''" ts rule: py_join.induct)
  case 1
  then show ?case by simp
next
  case (2 x)
  then show ?case by (simp add: py_split_def py_split_from_no_sep)
next
  case (3 x y ys)
  then show ?case
    using py_split_from_sep [of x "[]" "py_join '','' (y # ys)"]
    by (simp add: py_split_def)
qed

lemma add_then_get:
  assumes "content_id \<notin> stored_id ` set (collection s)" "store_fault w = (\<lambda>n. None)"
  shows "fst (add_content w content_id cd s) = Inr content_id"
    and "map_option tags (get_content_by_id w content_id (snd (add_content w content_id cd s)))
         = Some (py_split '','' (py_join '','' (cd_tags cd)))"
proof -
  have f: "filter (\<lambda>r. stored_id r = content_id) (collection s) = []"
    using assms(1) by (auto simp: filter_empty_conv)
  show "fst (add_content w content_id cd s) = Inr content_id"
    using assms(2) by (simp add: add_content_def Let_def split_beta)
  show "map_option tags (get_content_by_id w content_id (snd (add_content w content_id cd s)))
         = Some (py_split '','' (py_join '','' (cd_tags cd)))"
    using assms f
    by (simp add: add_content_def get_content_by_id_def collection_get_def collection_add_def
        Let_def split_beta time_time_def generate_embedding_frame item_of_stored_def)
qed

subsection \<open>Counting keys in insertion order\<close>

lemma dict_increment_keys:
  "map fst (dict_increment kvs k) = (if k \<in> fst ` set kvs then map fst kvs else map fst kvs @ [k])"
  by (induction kvs k rule: dict_increment.induct) auto

lemma dict_increment_entry:
  "distinct (map fst kvs) \<Longrightarrow>
     set (dict_increment kvs k) =
       (if k \<in> fst ` set kvs
        then {(k', c). (k', c) \<in> set kvs \<and> k' \<noteq> k} \<union> {(k, c + 1) | c. (k, c) \<in> set kvs}
        else set kvs \<union> {(k, 1)})"
  by (induction kvs k rule: dict_increment.induct) (auto simp: image_iff)

lemma count_keys_snoc: "count_keys (ks @ [k]) = dict_increment (count_keys ks) k"
  by (simp add: count_keys_def)

lemma count_keys_keys:
  "distinct (map fst (count_keys ks)) \<and> fst ` set (count_keys ks) = set ks"
proof (induction ks rule: rev_induct)
  case Nil
  show ?case by (simp add: count_keys_def)
next
  case (snoc k ks)
  then show ?case
    by (auto simp: count_keys_snoc dict_increment_keys simp flip: set_map)
qed

lemma count_keys_counts:
  "(k, c) \<in> set (count_keys ks) \<Longrightarrow> c = int (count_list ks k)"
proof (induction ks arbitrary: k c rule: rev_induct)
  case Nil
  then show ?case by (simp add: count_keys_def)
next
  case (snoc x ks)
  have d: "distinct (map fst (count_keys ks))" using count_keys_keys by blast
  have ks: "fst ` set (count_keys ks) = set ks" using count_keys_keys by blast
  show ?case
  proof (cases "x \<in> set ks")
    case True
    with snoc.prems d ks
    have "(k, c) \<in> set (count_keys ks) \<and> k \<noteq> x \<or> (k = x \<and> (x, c - 1) \<in> set (count_keys ks))"
      by (auto simp: count_keys_snoc dict_increment_entry)
    then show ?thesis using snoc.IH by fastforce
  next
    case False
    with snoc.prems d ks
    have "(k, c) \<in> set (count_keys ks) \<or> (k = x \<and> c = 1)"
      by (auto simp: count_keys_snoc dict_increment_entry)
    then show ?thesis
    proof
      assume a: "(k, c) \<in> set (count_keys ks)"
      then have "k \<in> set ks" using ks by force
      with False have "k \<noteq> x" by auto
      with snoc.IH [OF a] show ?thesis by simp
    next
      assume "k = x \<and> c = 1"
      with False show ?thesis by (simp add: count_list_0_iff)
    qed
  qed
qed

lemma first_index_snoc:
  "x \<in> set ks \<Longrightarrow> first_index (ks @ [k]) x = first_index ks x"
  unfolding first_index_def by (induction ks) auto

lemma first_index_less: "x \<in> set ks \<Longrightarrow> first_index ks x < length ks"
  unfolding first_index_def by (induction ks) auto

lemma first_index_new: "k \<notin> set ks \<Longrightarrow> first_index (ks @ [k]) k = length ks"
  unfolding first_index_def by (induction ks) auto

lemma count_keys_order:
  "sorted_wrt (\<lambda>a b. first_index ks (fst a) < first_index ks (fst b)) (count_keys ks)"
proof (induction ks rule: rev_induct)
  case Nil
  show ?case by (simp add: count_keys_def)
next
  case (snoc k ks)
  have ks: "fst ` set (count_keys ks) = set ks" using count_keys_keys by blast
  have keep: "sorted_wrt (\<lambda>a b. first_index (ks @ [k]) a < first_index (ks @ [k]) b)
      (map fst (count_keys ks))"
  proof -
    have "sorted_wrt (\<lambda>a b. first_index ks a < first_index ks b) (map fst (count_keys ks))"
      using snoc.IH by (simp add: sorted_wrt_map)
    then show ?thesis
      by (rule sorted_wrt_mono_rel [rotated]) (use ks in \<open>auto simp: first_index_snoc simp flip: set_map\<close>)
  qed
  have "sorted_wrt (\<lambda>a b. first_index (ks @ [k]) a < first_index (ks @ [k]) b)
      (map fst (count_keys (ks @ [k])))"
  proof (cases "k \<in> set ks")
    case True
    with keep ks show ?thesis by (simp add: count_keys_snoc dict_increment_keys)
  next
    case False
    with keep ks show ?thesis
      by (auto simp: count_keys_snoc dict_increment_keys sorted_wrt_append first_index_new
          first_index_snoc first_index_less simp flip: set_map)
  qed
  then show ?case by (simp add: sorted_wrt_map)
qed

lemma count_keys_replicate: "count_keys (replicate (Suc n) k) = [(k, 1 + int n)]"
proof (induction n)
  case 0
  show ?case by (simp add: count_keys_def)
next
  case (Suc n)
  have "replicate (Suc (Suc n)) k = replicate (Suc n) k @ [k]"
    by (simp add: replicate_append_same)
  then have "count_keys (replicate (Suc (Suc n)) k)
      = dict_increment (count_keys (replicate (Suc n) k)) k"
    by (simp only: count_keys_snoc)
  with Suc show ?case by simp
qed

subsection \<open>Worlds that agree on what a search reads\<close>

lemma generate_embedding_cong:
  assumes "settings w' = settings w" "embed_content w' = embed_content w"
  shows "fst (generate_embedding w' text s') = fst (generate_embedding w text s)"
  using assms by (simp add: generate_embedding_def Let_def split: sum.splits)

lemma variants_cong:
  assumes "query_expansion_chain w' = query_expansion_chain w" "set_order w' = set_order w"
  shows "variants w' request = variants w request"
  using assms by (simp add: variants_def expand_query_def Let_def split: option.splits sum.splits)

lemma process_results_cong:
  assumes "float_sub w' = float_sub w" "float_round4 w' = float_round4 w"
  shows "process_results w' m hits = process_results w m hits"
  using assms
  by (induction hits) (auto simp: result_of_hit_def Let_def split: option.splits sum.splits)

lemma db_search_outcome_cong:
  assumes "settings w' = settings w" "embed_content w' = embed_content w"
    "collection_query w' = collection_query w"
    "float_sub w' = float_sub w" "float_round4 w' = float_round4 w"
  shows "db_search_outcome w' request coll q = db_search_outcome w request coll q"
  using assms(3) generate_embedding_cong [OF assms(1,2), of q init_state init_state]
    process_results_cong [OF assms(4,5)]
  by (simp add: db_search_outcome_def split: sum.splits)

lemma final_results_cong:
  assumes "settings w' = settings w" "embed_content w' = embed_content w"
    "collection_query w' = collection_query w"
    "float_sub w' = float_sub w" "float_round4 w' = float_round4 w"
    "query_expansion_chain w' = query_expansion_chain w" "set_order w' = set_order w"
  shows "final_results w' request coll = final_results w request coll"
proof -
  have "variant_results w' request coll = variant_results w request coll"
    by (rule ext) (simp add: variant_results_def db_search_outcome_cong [OF assms(1,2,3,4,5)])
  then show ?thesis
    by (simp add: final_results_def merged_results_def variants_cong [OF assms(6,7)])
qed

subsection \<open>Failing variants and the similar-content search\<close>

lemma final_results_all_raise:
  assumes "\<forall>q \<in> set (variants w request). isl (db_search_outcome w request coll q)"
  shows "final_results w request coll = []"
proof -
  have "variant_results w request coll q = []" if "q \<in> set (variants w request)" for q
    using assms that by (auto simp: variant_results_def split: sum.splits)
  then have c: "concat (map (variant_results w request coll) (variants w request)) = []"
    by simp
  show ?thesis
    unfolding final_results_def merged_results_def c
    by (simp add: py_sorted_reverse_def py_slice_to_def split: option.splits)
qed

lemma get_similar_content_fst:
  "fst (get_similar_content w cid n s) =
     (case get_content_by_id w cid s of
        None \<Rightarrow> []
      | Some original \<Rightarrow>
          py_slice_to (Some n)
            (filter (\<lambda>r. item_id r \<noteq> cid)
               (variant_results w
                  \<lparr>req_query = title original @ '' '' @ content original,
                   req_max_results = Some (n + 1), req_category_filter = None,
                   req_difficulty_filter = None, req_min_similarity = Some 0\<rparr>
                  (collection s) (title original @ '' '' @ content original))))"
proof (cases "get_content_by_id w cid s")
  case None
  then show ?thesis by (simp add: get_similar_content_def)
next
  case (Some original)
  let ?q = "title original @ '' '' @ content original"
  let ?r = "\<lparr>req_query = ?q, req_max_results = Some (n + 1), req_category_filter = None,
             req_difficulty_filter = None, req_min_similarity = Some 0\<rparr>"
  from db_search_content_fst [of w ?q ?r s]
  have "fst (db_search_content w ?q (Some (n + 1)) None None (Some 0) s)
      = variant_results w ?r (collection s) ?q"
    by simp
  with Some show ?thesis
    by (simp add: get_similar_content_def Let_def split_beta)
qed

subsection \<open>The example worlds, evaluated\<close>

lemma init_state_fields:
  "collection init_state = []" "search_stats init_state = []" "sleeps init_state = []"
  "tick init_state = 0"
  by (simp_all add: init_state_def)


lemma enumerates_set_first_occurrences: "enumerates_set first_occurrences"
  by (simp add: enumerates_set_def first_occurrences_def)

lemma example_embedding:
  "fst (generate_embedding example_world ''q1'' s) = [1, 0, 0]"
  "fst (generate_embedding example_world ''q2'' s) = [0, 1, 0]"
  "fst (generate_embedding example_world ''long'' s) = [1, 2, 3]"
  "fst (generate_embedding example_world ''Intro to Go Go is a systems language'' s)
     = [0.1, 0.1, 0.1]"
  by (simp_all add: generate_embedding_def example_world_def api_key_missing_def Let_def
      py_slice_to_def dummy_embedding_def numeral_3_eq_3)

lemma example_variants: "variants example_world request = [''q1'', ''q2'']"
  if "req_query request = ''q1''"
  using that
  by (simp add: variants_def expand_query_def example_world_def first_occurrences_def Let_def)

lemma example_floats:
  "float_sub example_world a b = a - b" "float_round4 example_world = py_round4"
  "float_sub offline_world a b = a - b" "float_round4 offline_world = py_round4"
  "float_sub flaky_store_world a b = a - b" "float_round4 flaky_store_world = py_round4"
  by (simp_all add: example_world_def offline_world_def flaky_store_world_def)

lemma example_result_of_hit:
  "float_round4 w = py_round4 \<Longrightarrow>
     result_of_hit w (example_hit i d) sc = example_result i (py_round4 sc)"
  by (simp add: result_of_hit_def example_hit_def example_metadata_def example_result_def
      py_split_def)

lemma example_hit_distance: "hit_distance (example_hit i d) = d"
  by (simp add: example_hit_def)

lemma example_request_fields:
  "req_query example_request = ''q1''"
  "req_max_results example_request = Some 10"
  "truthy (req_category_filter example_request) = None"
  "truthy (req_difficulty_filter example_request) = None"
  "req_min_similarity example_request = Some 0"
  by (simp_all add: example_request_def truthy_def)

lemma threshold_request_fields:
  "req_query threshold_request = ''q1''"
  "req_max_results threshold_request = Some 10"
  "truthy (req_category_filter threshold_request) = None"
  "truthy (req_difficulty_filter threshold_request) = None"
  "req_min_similarity threshold_request = Some 0.70001"
  by (simp_all add: threshold_request_def example_request_def truthy_def)

lemma example_world_query:
  "collection_query example_world coll [1, 0, 0] n flt = Inr [example_hit ''A'' 0.1]"
  "collection_query example_world coll [0, 1, 0] n flt
     = Inr [example_hit ''A'' 0.05, example_hit ''B'' 0.29996]"
  "collection_query example_world coll [0.1, 0.1, 0.1] n flt
     = Inr [example_hit ''A'' 0, example_hit ''C'' 0.4]"
  by (simp_all add: example_world_def)

lemma example_outcome:
  "db_search_outcome example_world example_request [] ''q1'' = Inr [example_result ''A'' 0.9]"
  "db_search_outcome example_world example_request [] ''q2'' =
     Inr [example_result ''A'' 0.95, example_result ''B'' 0.7]"
  unfolding db_search_outcome_def example_embedding example_request_fields example_world_query
  by (simp_all add: Let_def example_floats example_result_of_hit example_hit_distance
        py_round4_def)

lemma threshold_outcome:
  "db_search_outcome example_world threshold_request [] ''q1'' = Inr [example_result ''A'' 0.9]"
  "db_search_outcome example_world threshold_request [] ''q2'' =
     Inr [example_result ''A'' 0.95, example_result ''B'' 0.7]"
  unfolding db_search_outcome_def example_embedding threshold_request_fields example_world_query
  by (simp_all add: Let_def example_floats example_result_of_hit example_hit_distance
        py_round4_def)

lemma example_merged:
  "merged_results example_world example_request [] =
     [example_result ''A'' 0.9, example_result ''B'' 0.7]"
  unfolding merged_results_def example_variants [OF example_request_fields(1)]
  by (simp add: variant_results_def example_outcome) (simp add: example_result_def)

lemma threshold_merged:
  "merged_results example_world threshold_request [] =
     [example_result ''A'' 0.9, example_result ''B'' 0.7]"
  unfolding merged_results_def example_variants [OF threshold_request_fields(1)]
  by (simp add: variant_results_def threshold_outcome) (simp add: example_result_def)

lemma example_final:
  "final_results example_world example_request [] =
     [example_result ''A'' 0.9, example_result ''B'' 0.7]"
  unfolding final_results_def example_merged example_request_fields
  by (simp add: py_sorted_reverse_def py_slice_to_def example_result_def)

lemma threshold_final:
  "final_results example_world threshold_request [] =
     [example_result ''A'' 0.9, example_result ''B'' 0.7]"
  unfolding final_results_def threshold_merged threshold_request_fields
  by (simp add: py_sorted_reverse_def py_slice_to_def example_result_def)

lemma example_response:
  "response_results (fst (search_content example_world example_request init_state)) =
     [example_result ''A'' 0.9, example_result ''B'' 0.7]"
proof -
  have "collection init_state = []" by (simp add: init_state_def)
  moreover have "validation_error example_world = (\<lambda>r. None)" by (simp add: example_world_def)
  ultimately show ?thesis
    by (simp add: search_content_response_results example_final)
qed

lemma threshold_response:
  "response_results (fst (search_content example_world threshold_request init_state)) =
     [example_result ''A'' 0.9, example_result ''B'' 0.7]"
proof -
  have "collection init_state = []" by (simp add: init_state_def)
  moreover have "validation_error example_world = (\<lambda>r. None)" by (simp add: example_world_def)
  ultimately show ?thesis
    by (simp add: search_content_response_results threshold_final)
qed

lemma flaky_store_outcome:
  "db_search_outcome flaky_store_world example_request [] ''q1''
     = Inl (Exception ''store unavailable'')"
  "db_search_outcome flaky_store_world example_request [] ''q2''
     = Inr [example_result ''A'' 0.95, example_result ''B'' 0.7]"
proof -
  have e: "fst (generate_embedding flaky_store_world t init_state)
      = fst (generate_embedding example_world t init_state)" for t
    by (rule generate_embedding_cong) (simp_all add: flaky_store_world_def)
  have q: "collection_query flaky_store_world [] [1, 0, 0] n flt
      = Inl (Exception ''store unavailable'')"
    "collection_query flaky_store_world [] [0, 1, 0] n flt
      = Inr [example_hit ''A'' 0.05, example_hit ''B'' 0.29996]" for n flt
    by (simp_all add: flaky_store_world_def example_world_query)
  show "db_search_outcome flaky_store_world example_request [] ''q1''
     = Inl (Exception ''store unavailable'')"
    unfolding db_search_outcome_def e example_embedding q by simp
  show "db_search_outcome flaky_store_world example_request [] ''q2''
     = Inr [example_result ''A'' 0.95, example_result ''B'' 0.7]"
    unfolding db_search_outcome_def e example_embedding example_request_fields q
    by (simp add: Let_def example_floats example_result_of_hit example_hit_distance
        py_round4_def)
qed

lemma flaky_store_variants: "variants flaky_store_world example_request = [''q1'', ''q2'']"
proof -
  have "variants flaky_store_world example_request = variants example_world example_request"
    by (rule variants_cong) (simp_all add: flaky_store_world_def)
  then show ?thesis by (simp add: example_variants example_request_fields)
qed

lemma flaky_store_final:
  "final_results flaky_store_world example_request [] =
     [example_result ''A'' 0.95, example_result ''B'' 0.7]"
  unfolding final_results_def merged_results_def flaky_store_variants example_request_fields
  by (simp add: variant_results_def flaky_store_outcome)
     (simp add: py_sorted_reverse_def py_slice_to_def example_result_def)

lemma dead_store_outcome:
  "db_search_outcome dead_store_world request coll q = Inl (Exception ''store unavailable'')"
  by (simp add: db_search_outcome_def dead_store_world_def)

lemma dead_store_variants: "variants dead_store_world example_request = [''q1'', ''q2'']"
proof -
  have "variants dead_store_world example_request = variants example_world example_request"
    by (rule variants_cong) (simp_all add: dead_store_world_def)
  then show ?thesis by (simp add: example_variants example_request_fields)
qed

lemma rejecting_final:
  "final_results rejecting_world example_request [] =
     [example_result ''A'' 0.9, example_result ''B'' 0.7]"
proof -
  have "final_results rejecting_world example_request []
      = final_results example_world example_request []"
    by (rule final_results_cong) (simp_all add: rejecting_world_def)
  then show ?thesis by (simp add: example_final)
qed

section \<open>The claims\<close>

subsection \<open>C1: first-seen-wins in the search merge\<close>



subsection \<open>C2: what a search appends to the stats log\<close>




subsection \<open>C3: a rate limiter with a limit of zero or less\<close>

text \<open>
  Claim C3, as amended. A rate limiter whose configured calls-per-minute limit is zero or
  negative is not unlimited: the test \<^verbatim>\<open>count >= limit\<close> succeeds on every call, so each call
  sleeps, for 60 seconds when the window was just reset and for the rest of the window
  otherwise; the only call that does not sleep is one made exactly 60 seconds after the window
  start. This holds for the embedding limiter and for the LLM limiter.
\<close>

theorem rate_limit_nonpositive_limit_sleeps:
  "(embedding_rate_limit (settings w) \<le> 0 \<and> 0 \<le> embedding_call_count s
      \<and> clock w (tick s) - last_embedding_call s \<noteq> 60
    \<longrightarrow> sleeps (rate_limit_embedding_calls w s) =
          sleeps s @ [if 60 < clock w (tick s) - last_embedding_call s then 60
                      else 60 - (clock w (tick s) - last_embedding_call s)])
   \<and> (llm_rate_limit (settings w) \<le> 0 \<and> 0 \<le> llm_call_count s
      \<and> clock w (tick s) - last_llm_call s \<noteq> 60
    \<longrightarrow> sleeps (rate_limit_llm_calls w s) =
          sleeps s @ [if 60 < clock w (tick s) - last_llm_call s then 60
                      else 60 - (clock w (tick s) - last_llm_call s)])"
  by (auto simp: rate_limit_embedding_calls_def rate_limit_llm_calls_def time_time_def
      time_sleep_def Let_def)

text \<open>
  The claim as stated fails on the very first call of a fresh process: with a limit of zero
  both limiters sleep for 60 seconds.
\<close>

theorem rate_limit_zero_limit_counterexample:
  "embedding_rate_limit (settings zero_limit_world) = 0
   \<and> llm_rate_limit (settings zero_limit_world) = 0
   \<and> sleeps (rate_limit_embedding_calls zero_limit_world init_state) = [60]
   \<and> sleeps (rate_limit_llm_calls zero_limit_world init_state) = [60]"
  by (simp add: zero_limit_world_def example_world_def init_state_def
      rate_limit_embedding_calls_def rate_limit_llm_calls_def time_time_def time_sleep_def
      Let_def)

text \<open>Ten seconds into a window, with three calls made, each limiter sleeps for 50 seconds.\<close>

theorem rate_limit_nonpositive_limit_sleeps_witness:
  "embedding_rate_limit (settings zero_limit_world) \<le> 0
   \<and> 0 \<le> embedding_call_count busy_state
   \<and> clock zero_limit_world (tick busy_state) - last_embedding_call busy_state \<noteq> 60
   \<and> sleeps (rate_limit_embedding_calls zero_limit_world busy_state) = [50]
   \<and> llm_rate_limit (settings zero_limit_world) \<le> 0
   \<and> 0 \<le> llm_call_count busy_state
   \<and> clock zero_limit_world (tick busy_state) - last_llm_call busy_state \<noteq> 60
   \<and> sleeps (rate_limit_llm_calls zero_limit_world busy_state) = [50]"
proof -
  have h: "embedding_rate_limit (settings zero_limit_world) \<le> 0"
    "0 \<le> embedding_call_count busy_state"
    "clock zero_limit_world (tick busy_state) - last_embedding_call busy_state = 10"
    "llm_rate_limit (settings zero_limit_world) \<le> 0"
    "0 \<le> llm_call_count busy_state"
    "clock zero_limit_world (tick busy_state) - last_llm_call busy_state = 10"
    "sleeps busy_state = []"
    by (simp_all add: zero_limit_world_def example_world_def busy_state_def init_state_def)
  from rate_limit_nonpositive_limit_sleeps [of zero_limit_world busy_state] h
  show ?thesis by simp
qed

subsection \<open>C4: what the search endpoint does when something raises\<close>

text \<open>
  Claim C4, as amended. Whatever the expansion backend, the embedding provider and the vector
  store do, the endpoint returns the merged, sorted, truncated results of the variants unless
  pydantic rejects one of those results when the response is built; then it raises
  \<^verbatim>\<open>HTTPException(500)\<close> with the message of the first rejected result. A variant whose
  database search raises (in the vector query or in the threshold comparison) contributes the
  empty list and no stats record while the other variants still contribute; the returned list
  is empty when the database search of every variant raised.
\<close>

theorem search_content_failure_policy:
  "(case find (\<lambda>r. validation_error w r \<noteq> None) (final_results w request (collection s)) of
      None \<Rightarrow>
        (\<exists>resp. fst (search_content w request s) = Inr resp
           \<and> resp_results resp = final_results w request (collection s))
    | Some r \<Rightarrow>
        fst (search_content w request s)
          = Inl (HTTPException 500
                   (''Search failed: '' @ str_of_exception (the (validation_error w r)))))
   \<and> (\<forall>q s0. isl (db_search_outcome w request (collection s0) q) \<longrightarrow>
         fst (db_search_content w q (req_max_results request) (req_category_filter request)
                (req_difficulty_filter request) (req_min_similarity request) s0) = []
         \<and> search_stats (snd (db_search_content w q (req_max_results request)
                (req_category_filter request) (req_difficulty_filter request)
                (req_min_similarity request) s0)) = search_stats s0)
   \<and> ((\<forall>q \<in> set (variants w request). isl (db_search_outcome w request (collection s) q))
        \<longrightarrow> final_results w request (collection s) = [])"
proof -
  let ?final = "final_results w request (collection s)"
  have handler: "case find (\<lambda>r. validation_error w r \<noteq> None) ?final of
      None \<Rightarrow> (\<exists>resp. fst (search_content w request s) = Inr resp \<and> resp_results resp = ?final)
    | Some r \<Rightarrow>
        fst (search_content w request s)
          = Inl (HTTPException 500
                   (''Search failed: '' @ str_of_exception (the (validation_error w r))))"
  proof (cases "find (\<lambda>r. validation_error w r \<noteq> None) ?final")
    case None
    then have "fst (search_content w request s) =
        Inr \<lparr>resp_query = req_query request, resp_results = ?final,
             resp_total_results = int (length ?final),
             resp_search_time = resp_search_time (projr (fst (search_content w request s)))\<rparr>"
      by (subst search_content_fst) simp
    then have "\<exists>resp. fst (search_content w request s) = Inr resp \<and> resp_results resp = ?final"
      by (metis search_response.select_convs(2))
    with None show ?thesis by simp
  next
    case (Some r)
    then show ?thesis by (subst search_content_fst) simp
  qed
  have variant: "\<forall>q s0. isl (db_search_outcome w request (collection s0) q) \<longrightarrow>
         fst (db_search_content w q (req_max_results request) (req_category_filter request)
                (req_difficulty_filter request) (req_min_similarity request) s0) = []
         \<and> search_stats (snd (db_search_content w q (req_max_results request)
                (req_category_filter request) (req_difficulty_filter request)
                (req_min_similarity request) s0)) = search_stats s0"
    using db_search_content_raise by blast
  from handler variant final_results_all_raise [of w request "collection s"]
  show ?thesis by blast
qed

text \<open>
  The claim as stated fails when the vector query raises for the first variant only: the
  error is raised during step 2, and the endpoint returns the two results of the second
  variant, not an empty list.
\<close>

theorem search_content_failure_counterexample:
  "variants flaky_store_world example_request = [''q1'', ''q2'']
   \<and> db_search_outcome flaky_store_world example_request (collection init_state) ''q1''
     = Inl (Exception ''store unavailable'')
   \<and> response_results (fst (search_content flaky_store_world example_request init_state))
     = [example_result ''A'' 0.95, example_result ''B'' 0.7]"
proof -
  have v: "validation_error flaky_store_world = (\<lambda>r. None)"
    by (simp add: flaky_store_world_def example_world_def)
  have a: "response_results (fst (search_content flaky_store_world example_request init_state))
     = [example_result ''A'' 0.95, example_result ''B'' 0.7]"
    by (simp add: search_content_response_results init_state_fields flaky_store_final v)
  from a show ?thesis
    by (simp add: init_state_fields flaky_store_outcome flaky_store_variants)
qed

text \<open>
  With a vector store that fails on every query each database search returns the empty list
  and the endpoint returns an empty list. When pydantic rejects every result the endpoint
  raises.
\<close>

theorem search_content_failure_policy_witness:
  "variants dead_store_world example_request = [''q1'', ''q2'']
   \<and> isl (db_search_outcome dead_store_world example_request (collection init_state) ''q1'')
   \<and> isl (db_search_outcome dead_store_world example_request (collection init_state) ''q2'')
   \<and> fst (db_search_content dead_store_world ''q1'' (Some 10) None None (Some 0) init_state)
       = []
   \<and> search_stats (snd (db_search_content dead_store_world ''q1'' (Some 10) None None
         (Some 0) init_state)) = []
   \<and> final_results dead_store_world example_request (collection init_state) = []
   \<and> response_results (fst (search_content dead_store_world example_request init_state)) = []
   \<and> \<not> isl (fst (search_content dead_store_world example_request init_state))
   \<and> find (\<lambda>r. validation_error rejecting_world r \<noteq> None)
        (final_results rejecting_world example_request (collection init_state))
       = Some (example_result ''A'' 0.9)
   \<and> fst (search_content rejecting_world example_request init_state)
       = Inl (HTTPException 500 ''Search failed: validation error'')"
proof -
  note dead = search_content_failure_policy [of dead_store_world example_request init_state]
  note rejecting = search_content_failure_policy [of rejecting_world example_request init_state]
  have h: "\<forall>q \<in> set (variants dead_store_world example_request).
      isl (db_search_outcome dead_store_world example_request (collection init_state) q)"
    by (simp add: dead_store_outcome)
  have i: "isl (db_search_outcome dead_store_world example_request (collection init_state)
      ''q1'')"
    by (simp add: dead_store_outcome)
  from dead h
  have f: "final_results dead_store_world example_request (collection init_state) = []"
    by blast
  have "validation_error dead_store_world = (\<lambda>r. None)"
    by (simp add: dead_store_world_def example_world_def)
  with dead f obtain resp where
    resp: "fst (search_content dead_store_world example_request init_state) = Inr resp"
      "resp_results resp = []"
    by auto
  from dead i
  have d: "fst (db_search_content dead_store_world ''q1'' (req_max_results example_request)
         (req_category_filter example_request) (req_difficulty_filter example_request)
         (req_min_similarity example_request) init_state) = []
     \<and> search_stats (snd (db_search_content dead_store_world ''q1''
         (req_max_results example_request) (req_category_filter example_request)
         (req_difficulty_filter example_request) (req_min_similarity example_request)
         init_state)) = search_stats init_state"
    by blast
  have r: "validation_error rejecting_world = (\<lambda>r. Some (Exception ''validation error''))"
    by (simp add: rejecting_world_def)
  have g: "find (\<lambda>r. validation_error rejecting_world r \<noteq> None)
        (final_results rejecting_world example_request (collection init_state))
       = Some (example_result ''A'' 0.9)"
    by (simp add: init_state_fields rejecting_final r)
  from rejecting g
  have e: "fst (search_content rejecting_world example_request init_state)
       = Inl (HTTPException 500 ''Search failed: validation error'')"
    by (simp add: r)
  from d have d': "fst (db_search_content dead_store_world ''q1'' (Some 10) None None (Some 0)
        init_state) = []
     \<and> search_stats (snd (db_search_content dead_store_world ''q1'' (Some 10) None None
         (Some 0) init_state)) = []"
    by (simp add: example_request_def init_state_fields)
  from f resp d' g e show ?thesis
    by (simp add: dead_store_variants dead_store_outcome response_results_def)
qed

subsection \<open>C5: the dimension of an embedding\<close>

text \<open>
  Claim C5. For a configured dimension (a non-negative number), every text, every state and
  every provider outcome, \<^verbatim>\<open>generate_embedding\<close> returns a vector of exactly that length; when
  the provider answers with a vector, the result is that vector cut to the dimension and
  padded with zeros up to it.
\<close>

theorem generate_embedding_dimension:
  assumes "0 \<le> embedding_dimension (settings w)"
  shows "int (length (fst (generate_embedding w text s))) = embedding_dimension (settings w)
       \<and> (\<not> api_key_missing (settings w) \<longrightarrow>
            (\<forall>v. embed_content w text = Inr v \<longrightarrow>
               fst (generate_embedding w text s) =
                 take (nat (embedding_dimension (settings w))) v
                   @ replicate (nat (embedding_dimension (settings w)) - length v) 0))"
  using assms
  by (auto simp: generate_embedding_def dummy_embedding_def Let_def py_slice_to_def
      split: sum.splits)

text \<open>
  In the example world of dimension 3: a provider vector of length 2 is padded, one of
  length 5 is cut, a provider failure and a missing key give the placeholder.
\<close>

theorem generate_embedding_dimension_witness:
  "0 \<le> embedding_dimension (settings example_world)
   \<and> \<not> api_key_missing (settings example_world)
   \<and> embed_content example_world ''q2'' = Inr [0, 1]
   \<and> fst (generate_embedding example_world ''q2'' init_state) = [0, 1, 0]
   \<and> embed_content example_world ''long'' = Inr [1, 2, 3, 4, 5]
   \<and> fst (generate_embedding example_world ''long'' init_state) = [1, 2, 3]
   \<and> embed_content example_world ''other'' = Inl (Exception ''quota exceeded'')
   \<and> fst (generate_embedding example_world ''other'' init_state) = [0.1, 0.1, 0.1]
   \<and> length (fst (generate_embedding offline_world ''q1'' init_state)) = 3"
proof -
  have h: "0 \<le> embedding_dimension (settings example_world)"
    "\<not> api_key_missing (settings example_world)"
    "embed_content example_world ''q2'' = Inr [0, 1]"
    "embed_content example_world ''long'' = Inr [1, 2, 3, 4, 5]"
    "embed_content example_world ''other'' = Inl (Exception ''quota exceeded'')"
    "embedding_dimension (settings example_world) = 3"
    by (simp_all add: example_world_def api_key_missing_def)
  have o: "0 \<le> embedding_dimension (settings offline_world)"
    "embedding_dimension (settings offline_world) = 3"
    by (simp_all add: offline_world_def example_world_def)
  have d: "fst (generate_embedding example_world ''other'' init_state) = [0.1, 0.1, 0.1]"
    by (simp add: generate_embedding_def example_world_def api_key_missing_def Let_def
        dummy_embedding_def numeral_3_eq_3)
  from generate_embedding_dimension [OF h(1), of "''q2''" init_state]
    generate_embedding_dimension [OF h(1), of "''long''" init_state]
    generate_embedding_dimension [OF o(1), of "''q1''" init_state] h o d
  show ?thesis by (simp add: numeral_3_eq_3)
qed

subsection \<open>C6: the similarity threshold\<close>

text \<open>
  Claim C6, as amended. Every result the search endpoint returns is built from a row that the
  vector store returned for one of the expanded variants and whose computed score, the float
  \<^verbatim>\<open>1 - distance\<close>, is at least the threshold; the score it shows is that score passed
  through \<^verbatim>\<open>round(., 4)\<close>. The shown score is at least the threshold minus any bound on the
  error of \<^verbatim>\<open>round(., 4)\<close>, and at least the threshold itself whenever \<^verbatim>\<open>round(., 4)\<close> is
  monotone and maps the threshold to itself.
\<close>

theorem search_content_min_similarity:
  assumes "r \<in> set (response_results (fst (search_content w request s)))"
    and "req_min_similarity request = Some m"
  shows "(\<exists>q \<in> set (variants w request). \<exists>hits.
            collection_query w (collection s) (fst (generate_embedding w q s))
              (req_max_results request)
              (truthy (req_category_filter request), truthy (req_difficulty_filter request))
            = Inr hits
          \<and> (\<exists>h \<in> set hits.
                r = result_of_hit w h (float_sub w 1 (hit_distance h))
              \<and> m \<le> float_sub w 1 (hit_distance h)
              \<and> similarity_score r = float_round4 w (float_sub w 1 (hit_distance h))))
       \<and> (\<forall>eps. (\<forall>x. \<bar>float_round4 w x - x\<bar> \<le> eps) \<longrightarrow> m - eps \<le> similarity_score r)
       \<and> (mono (float_round4 w) \<and> float_round4 w m = m \<longrightarrow> m \<le> similarity_score r)"
proof -
  from assms(1) response_results_subset merged_results_subset
  obtain q where q: "q \<in> set (variants w request)"
    and "r \<in> set (variant_results w request (collection s) q)" by blast
  from variant_results_hit [OF this(2) assms(2)]
  obtain hits h where
    hits: "collection_query w (collection s) (fst (generate_embedding w q init_state))
             (req_max_results request)
             (truthy (req_category_filter request), truthy (req_difficulty_filter request))
           = Inr hits"
    and h: "h \<in> set hits" "r = result_of_hit w h (float_sub w 1 (hit_distance h))"
      "m \<le> float_sub w 1 (hit_distance h)"
    by blast
  let ?x = "float_sub w 1 (hit_distance h)"
  have "fst (generate_embedding w q s) = fst (generate_embedding w q init_state)"
    by (rule generate_embedding_fst_state)
  with hits have hits':
    "collection_query w (collection s) (fst (generate_embedding w q s))
       (req_max_results request)
       (truthy (req_category_filter request), truthy (req_difficulty_filter request))
     = Inr hits"
    by simp
  have sc: "similarity_score r = float_round4 w ?x"
    by (simp add: h(2) result_of_hit_def)
  have at_h: "r = result_of_hit w h (float_sub w 1 (hit_distance h))
      \<and> m \<le> float_sub w 1 (hit_distance h)
      \<and> similarity_score r = float_round4 w (float_sub w 1 (hit_distance h))"
    using h(2,3) sc by (intro conjI)
  have row: "\<exists>q \<in> set (variants w request). \<exists>hits.
            collection_query w (collection s) (fst (generate_embedding w q s))
              (req_max_results request)
              (truthy (req_category_filter request), truthy (req_difficulty_filter request))
            = Inr hits
          \<and> (\<exists>h \<in> set hits.
                r = result_of_hit w h (float_sub w 1 (hit_distance h))
              \<and> m \<le> float_sub w 1 (hit_distance h)
              \<and> similarity_score r = float_round4 w (float_sub w 1 (hit_distance h)))"
  proof (intro bexI [of _ q] exI [of _ hits] conjI)
    show "collection_query w (collection s) (fst (generate_embedding w q s))
              (req_max_results request)
              (truthy (req_category_filter request), truthy (req_difficulty_filter request))
            = Inr hits"
      by (fact hits')
    show "\<exists>h \<in> set hits.
                r = result_of_hit w h (float_sub w 1 (hit_distance h))
              \<and> m \<le> float_sub w 1 (hit_distance h)
              \<and> similarity_score r = float_round4 w (float_sub w 1 (hit_distance h))"
      using at_h h(1) by (rule bexI)
    show "q \<in> set (variants w request)" by (fact q)
  qed
  have err: "\<forall>eps. (\<forall>x. \<bar>float_round4 w x - x\<bar> \<le> eps) \<longrightarrow> m - eps \<le> similarity_score r"
  proof (intro allI impI)
    fix eps
    assume "\<forall>x. \<bar>float_round4 w x - x\<bar> \<le> eps"
    then have "\<bar>float_round4 w ?x - ?x\<bar> \<le> eps" by blast
    with h(3) sc show "m - eps \<le> similarity_score r" by linarith
  qed
  have fixed: "mono (float_round4 w) \<and> float_round4 w m = m \<longrightarrow> m \<le> similarity_score r"
  proof
    assume a: "mono (float_round4 w) \<and> float_round4 w m = m"
    then have "mono (float_round4 w)" by (rule conjunct1)
    from monoD [OF this h(3)] have "float_round4 w m \<le> float_round4 w ?x" .
    with a sc show "m \<le> similarity_score r" by simp
  qed
  from row err fixed show ?thesis by (intro conjI)
qed

text \<open>
  The claim as stated fails for the threshold \<open>0.70001\<close>: item \<^verbatim>\<open>B\<close> at distance \<open>0.29996\<close>
  passes the filter with \<open>0.70004\<close> and is returned with the score \<open>0.7\<close>, below the
  threshold.
\<close>

theorem search_content_min_similarity_counterexample:
  "req_min_similarity threshold_request = Some 0.70001
   \<and> map (\<lambda>r. (item_id r, similarity_score r))
       (response_results (fst (search_content example_world threshold_request init_state)))
     = [(''A'', 0.9), (''B'', 0.7)]
   \<and> (0.7 :: real) < 0.70001"
  by (simp add: threshold_request_fields threshold_response example_result_def)

text \<open>
  In the example world, where the float operations are exact, item \<^verbatim>\<open>B\<close> of the second
  variant's answer passes the threshold \<open>0.70001\<close> and is shown within \<open>0.00005\<close> of it; with
  the threshold \<open>0\<close>, which rounding leaves alone, item \<^verbatim>\<open>A\<close> is shown with a score of at
  least \<open>0\<close>.
\<close>

theorem search_content_min_similarity_witness:
  "example_result ''B'' 0.7
     \<in> set (response_results (fst (search_content example_world threshold_request init_state)))
   \<and> req_min_similarity threshold_request = Some 0.70001
   \<and> (\<exists>q \<in> set (variants example_world threshold_request). \<exists>hits.
         collection_query example_world (collection init_state)
           (fst (generate_embedding example_world q init_state))
           (req_max_results threshold_request)
           (truthy (req_category_filter threshold_request),
            truthy (req_difficulty_filter threshold_request))
         = Inr hits
       \<and> (\<exists>h \<in> set hits.
             example_result ''B'' 0.7
               = result_of_hit example_world h (float_sub example_world 1 (hit_distance h))
           \<and> 0.70001 \<le> float_sub example_world 1 (hit_distance h)
           \<and> similarity_score (example_result ''B'' 0.7)
               = float_round4 example_world (float_sub example_world 1 (hit_distance h))))
   \<and> (\<forall>x. \<bar>float_round4 example_world x - x\<bar> \<le> 1 / 20000)
   \<and> 0.70001 - 1 / 20000 \<le> similarity_score (example_result ''B'' 0.7)
   \<and> example_result ''A'' 0.9
     \<in> set (response_results (fst (search_content example_world example_request init_state)))
   \<and> req_min_similarity example_request = Some 0
   \<and> mono (float_round4 example_world)
   \<and> float_round4 example_world 0 = 0
   \<and> 0 \<le> similarity_score (example_result ''A'' 0.9)"
proof -
  have b: "example_result ''B'' 0.7
     \<in> set (response_results (fst (search_content example_world threshold_request init_state)))"
    by (simp add: threshold_response)
  have m: "req_min_similarity threshold_request = Some 0.70001"
    by (simp add: threshold_request_fields)
  have a: "example_result ''A'' 0.9
     \<in> set (response_results (fst (search_content example_world example_request init_state)))"
    by (simp add: example_response)
  have z: "req_min_similarity example_request = Some 0"
    by (simp add: example_request_fields)
  have err: "\<forall>x. \<bar>float_round4 example_world x - x\<bar> \<le> 1 / 20000"
  proof
    fix x
    from py_round4_lower [of x] py_round4_upper [of x]
    have "\<bar>py_round4 x - x\<bar> \<le> 1 / 20000" by linarith
    then show "\<bar>float_round4 example_world x - x\<bar> \<le> 1 / 20000"
      by (simp only: example_floats)
  qed
  have mn: "mono (float_round4 example_world)"
    by (simp add: example_floats mono_def py_round4_mono)
  have fx: "float_round4 example_world 0 = 0"
    by (simp add: example_floats py_round4_def)
  note at_b = search_content_min_similarity [OF b m]
  note at_a = search_content_min_similarity [OF a z]
  note row = at_b [THEN conjunct1]
  have "(\<forall>x. \<bar>float_round4 example_world x - x\<bar> \<le> 1 / 20000)
      \<longrightarrow> 0.70001 - 1 / 20000 \<le> similarity_score (example_result ''B'' 0.7)"
    using at_b [THEN conjunct2, THEN conjunct1] by (rule spec)
  from this err
  have lo: "0.70001 - 1 / 20000 \<le> similarity_score (example_result ''B'' 0.7)"
    by (rule mp)
  from mn fx have "mono (float_round4 example_world) \<and> float_round4 example_world 0 = 0"
    by (rule conjI)
  with at_a [THEN conjunct2, THEN conjunct2]
  have nonneg: "0 \<le> similarity_score (example_result ''A'' 0.9)"
    by (rule mp)
  from b m row err lo a z mn fx nonneg show ?thesis
    by (intro conjI)
qed

subsection \<open>C7: query expansion\<close>

text \<open>
  Claim C7. Whatever order \<^verbatim>\<open>list(set(...))\<close> enumerates a set in, the list that query
  expansion returns contains the original query and has no duplicates; when no expansion chain
  is configured, or when the chain raises, it is the one-element list of the original query.
\<close>

theorem expand_query_original_included:
  assumes "enumerates_set (set_order w)"
  shows "q \<in> set (fst (expand_query w q s))
       \<and> distinct (fst (expand_query w q s))
       \<and> ((query_expansion_chain w = None
             \<or> (\<exists>chain e. query_expansion_chain w = Some chain \<and> chain q = Inl e))
            \<longrightarrow> fst (expand_query w q s) = [q])"
  using assms
  by (auto simp: expand_query_def enumerates_set_def Let_def split: option.splits sum.splits)

text \<open>
  In the example world \<^verbatim>\<open>q1\<close> expands to two queries although the backend repeats it, the
  failing call for \<^verbatim>\<open>zz\<close> gives the original alone, and so does the world without a chain.
\<close>

theorem expand_query_original_included_witness:
  "enumerates_set (set_order example_world)
   \<and> fst (expand_query example_world ''q1'' init_state) = [''q1'', ''q2'']
   \<and> (\<exists>chain e. query_expansion_chain example_world = Some chain \<and> chain ''zz'' = Inl e)
   \<and> fst (expand_query example_world ''zz'' init_state) = [''zz'']
   \<and> enumerates_set (set_order offline_world)
   \<and> query_expansion_chain offline_world = None
   \<and> fst (expand_query offline_world ''q1'' init_state) = [''q1'']"
proof -
  have e: "enumerates_set (set_order example_world)"
    by (simp add: example_world_def enumerates_set_first_occurrences)
  have o: "enumerates_set (set_order offline_world)"
    by (simp add: offline_world_def example_world_def enumerates_set_first_occurrences)
  have c: "\<exists>chain e. query_expansion_chain example_world = Some chain \<and> chain ''zz'' = Inl e"
    by (simp add: example_world_def)
  have n: "query_expansion_chain offline_world = None"
    by (simp add: offline_world_def)
  have v: "fst (expand_query example_world ''q1'' init_state) = [''q1'', ''q2'']"
    by (simp add: expand_query_def example_world_def first_occurrences_def Let_def)
  from expand_query_original_included [OF e, of "''zz''" init_state]
    expand_query_original_included [OF o, of "''q1''" init_state] e o c n v
  show ?thesis by simp
qed

subsection \<open>C8: similar content\<close>

text \<open>
  Claim C8. The list \<^verbatim>\<open>get_similar_content\<close> returns for an id never holds an item with that
  id, and for a result limit \<open>N \<ge> 0\<close> it holds at most \<open>N\<close> items.
\<close>

theorem get_similar_content_excludes_original:
  "content_id \<notin> item_id ` set (fst (get_similar_content w content_id n s))
   \<and> (0 \<le> n \<longrightarrow> int (length (fst (get_similar_content w content_id n s))) \<le> n)"
proof -
  have "content_id \<notin> item_id ` set (fst (get_similar_content w content_id n s))"
    using py_slice_to_set [of "Some n"]
    by (fastforce simp: get_similar_content_def Let_def split_beta split: option.splits)
  moreover
  have "0 \<le> n \<longrightarrow> int (length (fst (get_similar_content w content_id n s))) \<le> n"
    by (auto simp: get_similar_content_def Let_def split_beta py_slice_to_def
        split: option.splits)
  ultimately show ?thesis by simp
qed

text \<open>
  For item \<^verbatim>\<open>A\<close> of the stocked collection the inner search finds \<^verbatim>\<open>A\<close> itself and \<^verbatim>\<open>C\<close>;
  with a limit of 1 the answer is \<^verbatim>\<open>C\<close> alone.
\<close>

theorem get_similar_content_excludes_original_witness:
  "(0 :: int) \<le> 1
   \<and> fst (get_similar_content example_world ''A'' 1 stocked_state) = [example_result ''C'' 0.6]
   \<and> ''A'' \<notin> item_id ` set (fst (get_similar_content example_world ''A'' 1 stocked_state))
   \<and> int (length (fst (get_similar_content example_world ''A'' 1 stocked_state))) \<le> 1"
proof -
  have g: "get_content_by_id example_world ''A'' stocked_state
      = Some (item_of_stored example_stored)"
    by (simp add: get_content_by_id_def collection_get_def stocked_state_def example_stored_def
        example_world_def)
  have t: "title (item_of_stored example_stored) @ '' '' @ content (item_of_stored example_stored)
      = ''Intro to Go Go is a systems language''"
    by (simp add: item_of_stored_def example_stored_def example_metadata_def)
  have v: "variant_results example_world
             \<lparr>req_query = ''Intro to Go Go is a systems language'',
              req_max_results = Some (1 + 1), req_category_filter = None,
              req_difficulty_filter = None, req_min_similarity = Some 0\<rparr>
             coll ''Intro to Go Go is a systems language''
      = [example_result ''A'' 1, example_result ''C'' 0.6]" for coll
    unfolding variant_results_def db_search_outcome_def example_embedding
    by (simp add: truthy_def example_world_query Let_def example_floats example_result_of_hit
        example_hit_distance py_round4_def)
  have r: "fst (get_similar_content example_world ''A'' 1 stocked_state)
      = [example_result ''C'' 0.6]"
    unfolding get_similar_content_fst g option.case t v
    by (simp add: py_slice_to_def example_result_def)
  from get_similar_content_excludes_original [of "''A''" example_world 1 stocked_state] r
  show ?thesis by simp
qed

subsection \<open>C9: popular queries\<close>

text \<open>
  Claim C9. For every state of the stats log, the popular queries of \<^verbatim>\<open>get_stats\<close> are at most
  ten; they do not change when entries older than the last hundred are dropped, and each
  listed count is the number of occurrences of its query among the last hundred entries; the
  counts are in descending order, and entries with equal counts stand in the order in which
  their queries are first encountered among the last hundred entries.
\<close>

theorem get_stats_popular_queries:
  "length (popular_queries (get_stats w s)) \<le> 10
   \<and> (\<forall>older recent. search_stats s = older @ recent \<and> length recent = 100 \<longrightarrow>
         popular_queries (get_stats w s)
           = popular_queries (get_stats w (s\<lparr>search_stats := recent\<rparr>)))
   \<and> (\<forall>e \<in> set (popular_queries (get_stats w s)).
         snd e = int (count_list (map stat_query (py_slice_last 100 (search_stats s))) (fst e)))
   \<and> sorted_wrt (\<lambda>a b. snd b \<le> snd a) (popular_queries (get_stats w s))
   \<and> sorted_wrt
        (\<lambda>a b. snd a = snd b \<longrightarrow>
           first_index (map stat_query (py_slice_last 100 (search_stats s))) (fst a)
             < first_index (map stat_query (py_slice_last 100 (search_stats s))) (fst b))
        (popular_queries (get_stats w s))"
proof (cases "store_fault w (tick s)")
  case (Some e)
  then show ?thesis by (simp add: get_stats_def)
next
  case None
  let ?qs = "map stat_query (py_slice_last 100 (search_stats s))"
  have rs: "recent_searches (search_stats s) = py_slice_last 100 (search_stats s)"
    by (simp add: recent_searches_def py_slice_last_def)
  have pop: "popular_queries (get_stats w s)
      = take 10 (py_sorted_reverse snd (count_keys ?qs))"
    using None by (simp add: get_stats_def Let_def rs py_slice_to_def)
  have len: "length (popular_queries (get_stats w s)) \<le> 10"
    by (simp add: pop)
  have recent: "\<forall>older recent. search_stats s = older @ recent \<and> length recent = 100 \<longrightarrow>
      popular_queries (get_stats w s)
        = popular_queries (get_stats w (s\<lparr>search_stats := recent\<rparr>))"
    using None by (auto simp: get_stats_def Let_def recent_searches_def py_slice_last_def)
  have counts:
    "\<forall>e \<in> set (popular_queries (get_stats w s)). snd e = int (count_list ?qs (fst e))"
  proof
    fix e assume "e \<in> set (popular_queries (get_stats w s))"
    then have "e \<in> set (count_keys ?qs)"
      unfolding pop using py_sorted_reverse_set [of snd "count_keys ?qs"]
      by (auto dest: in_set_takeD)
    then show "snd e = int (count_list ?qs (fst e))"
      using count_keys_counts [of "fst e" "snd e" ?qs] by simp
  qed
  have desc: "sorted_wrt (\<lambda>a b. snd b \<le> snd a) (popular_queries (get_stats w s))"
    unfolding pop by (intro sorted_wrt_take py_sorted_reverse_descending)
  have ties: "sorted_wrt
        (\<lambda>a b. snd a = snd b \<longrightarrow> first_index ?qs (fst a) < first_index ?qs (fst b))
        (popular_queries (get_stats w s))"
    unfolding pop
    by (intro sorted_wrt_take py_sorted_reverse_ties count_keys_order)
  from len recent counts desc ties show ?thesis by blast
qed

text \<open>
  A log of one search for \<^verbatim>\<open>old\<close> followed by a hundred for \<^verbatim>\<open>new\<close> lists \<^verbatim>\<open>new\<close> only.
  In the tied log \<^verbatim>\<open>b\<close> and \<^verbatim>\<open>a\<close> both have count 2 and \<^verbatim>\<open>b\<close>, encountered first, comes
  first. When the collection raises the list is empty.
\<close>

theorem get_stats_popular_queries_witness:
  "search_stats long_log_state = [example_stat ''old''] @ replicate 100 (example_stat ''new'')
   \<and> length (replicate 100 (example_stat ''new'')) = 100
   \<and> popular_queries (get_stats example_world long_log_state) = [(''new'', 100)]
   \<and> popular_queries (get_stats example_world tied_log_state)
       = [(''b'', 2), (''a'', 2), (''c'', 1)]
   \<and> first_index (map stat_query (py_slice_last 100 (search_stats tied_log_state))) ''b'' = 0
   \<and> first_index (map stat_query (py_slice_last 100 (search_stats tied_log_state))) ''a'' = 2
   \<and> popular_queries (get_stats broken_store_world tied_log_state) = []"
proof -
  have l: "search_stats long_log_state
      = [example_stat ''old''] @ replicate 100 (example_stat ''new'')"
    by (simp add: long_log_state_def)
  have n: "length (replicate 100 (example_stat ''new'')) = 100" by simp
  have f: "store_fault example_world k = None" for k
    by (simp add: example_world_def)
  have "count_keys (replicate 100 ''new'') = [(''new'', 100)]"
    using count_keys_replicate [of 99 "''new''"] by simp
  then have p: "popular_queries (get_stats example_world (long_log_state\<lparr>search_stats :=
      replicate 100 (example_stat ''new'')\<rparr>)) = [(''new'', 100)]"
    by (simp add: get_stats_def f Let_def recent_searches_def py_slice_last_def example_stat_def
        py_slice_to_def py_sorted_reverse_def)
  from get_stats_popular_queries [of example_world long_log_state] l n
  have "popular_queries (get_stats example_world long_log_state)
      = popular_queries (get_stats example_world (long_log_state\<lparr>search_stats :=
          replicate 100 (example_stat ''new'')\<rparr>))"
    by blast
  with p have a: "popular_queries (get_stats example_world long_log_state) = [(''new'', 100)]"
    by simp
  have t: "map stat_query (py_slice_last 100 (search_stats tied_log_state))
      = [''b'', ''c'', ''a'', ''a'', ''b'']"
    by (simp add: tied_log_state_def py_slice_last_def example_stat_def)
  have b: "popular_queries (get_stats example_world tied_log_state)
      = [(''b'', 2), (''a'', 2), (''c'', 1)]"
    by (simp add: get_stats_def f Let_def recent_searches_def t py_slice_to_def
        py_sorted_reverse_def count_keys_def)
       (simp add: tied_log_state_def)
  have c: "popular_queries (get_stats broken_store_world tied_log_state) = []"
    by (simp add: get_stats_def broken_store_world_def)
  from l n a b c show ?thesis by (simp add: t first_index_def)
qed

subsection \<open>C10: tags through storage\<close>

text \<open>
  Claim C10. When the collection does not raise and content is added under a fresh id and read
  back by the returned id, a non-empty list of tags, each non-empty and free of commas, comes
  back unchanged, and an empty list of tags comes back as the one-element list holding the
  empty string.
\<close>

theorem add_content_tags_round_trip:
  assumes "content_id \<notin> stored_id ` set (collection s)" and "store_fault w = (\<lambda>n. None)"
  shows "fst (add_content w content_id cd s) = Inr content_id
       \<and> (cd_tags cd \<noteq> [] \<and> (\<forall>t \<in> set (cd_tags cd). t \<noteq> [] \<and> CHR '','' \<notin> set t) \<longrightarrow>
            map_option tags
              (get_content_by_id w content_id (snd (add_content w content_id cd s)))
            = Some (cd_tags cd))
       \<and> (cd_tags cd = [] \<longrightarrow>
            map_option tags
              (get_content_by_id w content_id (snd (add_content w content_id cd s)))
            = Some [''''])"
proof -
  note g = add_then_get [OF assms, of cd]
  have "py_split '','' (py_join '','' []) = ['''']"
    by (simp add: py_split_def)
  with g py_split_join [of "cd_tags cd"] show ?thesis by auto
qed

text \<open>
  Item \<^verbatim>\<open>id-1\<close> is added to the stocked collection, once with the tags \<^verbatim>\<open>go\<close> and
  \<^verbatim>\<open>systems\<close> and once without tags.
\<close>

theorem add_content_tags_round_trip_witness:
  "''id-1'' \<notin> stored_id ` set (collection stocked_state)
   \<and> store_fault example_world = (\<lambda>n. None)
   \<and> fst (add_content example_world ''id-1'' example_content stocked_state) = Inr ''id-1''
   \<and> cd_tags example_content \<noteq> []
   \<and> list_all (\<lambda>t. t \<noteq> [] \<and> CHR '','' \<notin> set t) (cd_tags example_content)
   \<and> map_option tags
       (get_content_by_id example_world ''id-1''
          (snd (add_content example_world ''id-1'' example_content stocked_state)))
     = Some [''go'', ''systems'']
   \<and> cd_tags untagged_content = []
   \<and> map_option tags
       (get_content_by_id example_world ''id-1''
          (snd (add_content example_world ''id-1'' untagged_content stocked_state)))
     = Some ['''']"
proof -
  have f: "''id-1'' \<notin> stored_id ` set (collection stocked_state)"
    by (simp add: stocked_state_def example_stored_def)
  have r: "store_fault example_world = (\<lambda>n. None)"
    by (simp add: example_world_def)
  have t: "cd_tags example_content = [''go'', ''systems'']" "cd_tags untagged_content = []"
    by (simp_all add: example_content_def untagged_content_def)
  from add_content_tags_round_trip [OF f r, of example_content]
    add_content_tags_round_trip [OF f r, of untagged_content] f r t
  show ?thesis by simp
qed


end
